theory Spec2Isabelle
  imports Main
begin

text \<open>
  A model of the resource handlers of the project-management API: the project controller
  (\<^verbatim>\<open>controllers/projectController.js\<close>), the task controller and the user controller.
  A handler is a function of the store, of the authenticated actor and of what the handler
  reads from the request; it returns the response, and the new store when it writes. A
  \<^verbatim>\<open>try\<close> block is a function \<open>h_try\<close> whose result is either the exception thrown
  or the response sent, and the handler \<open>h\<close> applies its \<^verbatim>\<open>catch\<close> block to it.
  Registration, login and token handling are outside the model.
\<close>

section \<open>Identifiers\<close>

text \<open>
  A stored reference (a Mongoose \<^verbatim>\<open>ObjectId\<close>) is represented by the string that its
  \<^verbatim>\<open>toString()\<close> yields: 24 lower-case hexadecimal digits. So \<^verbatim>\<open>member.toString() === userId\<close>
  of the source is plain equality of an \<open>oid\<close> with a request string.

  Identifiers that arrive in a request (\<^verbatim>\<open>req.params.id\<close>, \<^verbatim>\<open>req.body.project\<close>, ...) are
  arbitrary strings. The driver casts them: a string of 24 hexadecimal digits (either case)
  or a string of 12 bytes is accepted, anything else is a \<^verbatim>\<open>CastError\<close> of kind
  \<^verbatim>\<open>ObjectId\<close>, which is what the handlers' \<^verbatim>\<open>err.kind === 'ObjectId'\<close> tests look for.
\<close>

type_synonym oid = string

definition isHexDigit :: "char \<Rightarrow> bool" where
  "isHexDigit c \<longleftrightarrow> c \<in> set ''0123456789abcdefABCDEF''"

definition toLowerHex :: "char \<Rightarrow> char" where
  "toLowerHex c =
     (case map_of (zip ''ABCDEF'' ''abcdef'') c of None \<Rightarrow> c | Some l \<Rightarrow> l)"

definition hexByte :: "char \<Rightarrow> string" where
  "hexByte c = [''0123456789abcdef'' ! ((of_char c :: nat) div 16),
                ''0123456789abcdef'' ! ((of_char c :: nat) mod 16)]"

definition castObjectId :: "string \<Rightarrow> oid option" where
  "castObjectId s =
     (if length s = 12 then Some (concat (map hexByte s))
      else if length s = 24 \<and> list_all isHexDigit s then Some (map toLowerHex s)
      else None)"

section \<open>Exceptions and responses\<close>

text \<open>
  What a \<^verbatim>\<open>try\<close> block can throw. Only a \<^verbatim>\<open>CastError\<close> has a \<^verbatim>\<open>kind\<close>; on every other
  error \<^verbatim>\<open>err.kind\<close> is \<^verbatim>\<open>undefined\<close>.
\<close>

datatype exn =
    CastError string
  | ValidationError
  | DuplicateKey
  | TypeError
  | ReferenceError

fun kind :: "exn \<Rightarrow> string option" where
  "kind (CastError k) = Some k"
| "kind _ = None"

section \<open>Documents and the store\<close>

text \<open>
  Modelled from the spec: the Mongoose schemas (\<^verbatim>\<open>models/User\<close>, \<^verbatim>\<open>models/Project\<close>,
  \<^verbatim>\<open>models/Task\<close>) are not among the sources. Documents carry the fields of section 3 of
  the specification. References are \<open>oid\<close>s; every other field is an optional string
  (\<open>None\<close>: the field is not set), stored as given, with no schema default and no enum or
  required-field check. The e-mail address of a user is unique (a unique index).

  An entry of a project's team is a reference or \<^verbatim>\<open>null\<close> (\<open>None\<close>): an array of the
  request is stored with the \<^verbatim>\<open>null\<close>s it has, and \<^verbatim>\<open>push\<close> of a missing value stores
  \<^verbatim>\<open>null\<close>.
\<close>

record user =
  u_id :: oid
  u_name :: "string option"
  u_email :: "string option"
  u_password :: "string option"
  u_role :: "string option"

record project =
  p_id :: oid
  p_name :: "string option"
  p_description :: "string option"
  p_manager :: oid
  p_team :: "oid option list"
  p_status :: "string option"
  p_startDate :: "string option"
  p_endDate :: "string option"

record task =
  t_id :: oid
  t_title :: "string option"
  t_description :: "string option"
  t_project :: oid
  t_assignedTo :: "oid option"
  t_status :: "string option"
  t_priority :: "string option"
  t_dueDate :: "string option"
  t_createdBy :: oid

record store =
  users :: "user list"
  projects :: "project list"
  tasks :: "task list"

text \<open>The authenticated identity \<^verbatim>\<open>req.user\<close> that the credential check attaches.\<close>

record actor =
  user_id :: string
  user_role :: string

subsection \<open>Populated documents\<close>

text \<open>
  \<^verbatim>\<open>populate('manager', 'name email')\<close> replaces a reference by the selected fields of the
  document it points to, and by \<^verbatim>\<open>null\<close> when there is no such document; in an array of
  references the ones that do not resolve, and the \<^verbatim>\<open>null\<close> entries, are dropped.
\<close>

record user_ref =
  r_id :: oid
  r_name :: "string option"
  r_email :: "string option"

record populated_project =
  pp_project :: project
  pp_manager :: "user_ref option"
  pp_team :: "user_ref list"

text \<open>
  A populated task holds the project document it refers to. Which of the project's fields a
  handler selects (\<^verbatim>\<open>'name'\<close>, \<^verbatim>\<open>'manager team'\<close>) only trims the response body and is not
  modelled; every handler that reads \<^verbatim>\<open>task.project.manager\<close> or \<^verbatim>\<open>task.project.team\<close>
  selects these fields.
\<close>

record populated_task =
  pt_task :: task
  pt_project :: "project option"
  pt_assignedTo :: "user_ref option"

text \<open>\<^verbatim>\<open>select('-password')\<close>: a user without the password field.\<close>

record user_view =
  v_id :: oid
  v_name :: "string option"
  v_email :: "string option"
  v_role :: "string option"

datatype payload =
    Msg string
  | Send string
  | Errors "string list"
  | ProjectJson populated_project
  | ProjectsJson "populated_project list"
  | TaskJson populated_task
  | TasksJson "populated_task list"
  | UserJson user_view
  | UsersJson "user_view list"
  | JsonNull

type_synonym response = "nat \<times> payload"

definition status :: "response \<Rightarrow> nat" where
  "status r = fst r"

section \<open>Repository operations\<close>

definition findById :: "('d \<Rightarrow> oid) \<Rightarrow> 'd list \<Rightarrow> string \<Rightarrow> exn + 'd option" where
  "findById key docs i =
     (case castObjectId i of
        None \<Rightarrow> Inl (CastError ''ObjectId'')
      | Some k \<Rightarrow> Inr (find (\<lambda>d. key d = k) docs))"

text \<open>\<^verbatim>\<open>findByIdAndUpdate\<close> and \<^verbatim>\<open>save\<close> write one document, \<^verbatim>\<open>findByIdAndRemove\<close> removes one.\<close>

fun updateFirst :: "('d \<Rightarrow> bool) \<Rightarrow> ('d \<Rightarrow> 'd) \<Rightarrow> 'd list \<Rightarrow> 'd list" where
  "updateFirst P f [] = []"
| "updateFirst P f (d # ds) = (if P d then f d # ds else d # updateFirst P f ds)"

fun removeFirst :: "('d \<Rightarrow> bool) \<Rightarrow> 'd list \<Rightarrow> 'd list" where
  "removeFirst P [] = []"
| "removeFirst P (d # ds) = (if P d then ds else d # removeFirst P ds)"

definition userRef :: "user \<Rightarrow> user_ref" where
  "userRef u = \<lparr>r_id = u_id u, r_name = u_name u, r_email = u_email u\<rparr>"

definition populateUser :: "store \<Rightarrow> oid \<Rightarrow> user_ref option" where
  "populateUser s k = map_option userRef (find (\<lambda>u. u_id u = k) (users s))"

definition populateProject :: "store \<Rightarrow> project \<Rightarrow> populated_project" where
  "populateProject s p =
     \<lparr>pp_project = p,
      pp_manager = populateUser s (p_manager p),
      pp_team = List.map_filter
                  (\<lambda>m. case m of None \<Rightarrow> None | Some k \<Rightarrow> populateUser s k) (p_team p)\<rparr>"

definition lookupProject :: "store \<Rightarrow> oid \<Rightarrow> project option" where
  "lookupProject s k = find (\<lambda>p. p_id p = k) (projects s)"

definition populateTask :: "store \<Rightarrow> task \<Rightarrow> populated_task" where
  "populateTask s t =
     \<lparr>pt_task = t,
      pt_project = lookupProject s (t_project t),
      pt_assignedTo = (case t_assignedTo t of None \<Rightarrow> None | Some a \<Rightarrow> populateUser s a)\<rparr>"

definition userView :: "user \<Rightarrow> user_view" where
  "userView u = \<lparr>v_id = u_id u, v_name = u_name u, v_email = u_email u, v_role = u_role u\<rparr>"

section \<open>Helpers shared by the handlers\<close>

text \<open>JavaScript truthiness of an optional string: \<^verbatim>\<open>undefined\<close> and \<^verbatim>\<open>''\<close> are falsy.\<close>

definition truthy :: "string option \<Rightarrow> bool" where
  "truthy v = (case v of None \<Rightarrow> False | Some x \<Rightarrow> x \<noteq> [])"

text \<open>\<^verbatim>\<open>if (name) fields.name = name\<close>: the key is put into the \<^verbatim>\<open>$set\<close> object only when truthy.\<close>

definition pick :: "string option \<Rightarrow> string option" where
  "pick v = (if truthy v then v else None)"

text \<open>\<^verbatim>\<open>$set\<close> of one key: an absent key leaves the stored value.\<close>

definition setField :: "'a option \<Rightarrow> 'a \<Rightarrow> 'a" where
  "setField new old = (case new of None \<Rightarrow> old | Some v \<Rightarrow> v)"

definition setOpt :: "string option \<Rightarrow> string option \<Rightarrow> string option" where
  "setOpt new old = (case new of None \<Rightarrow> old | Some v \<Rightarrow> Some v)"

definition serverError :: response where
  "serverError = (500, Send ''Server error'')"

text \<open>
  The \<^verbatim>\<open>catch\<close> block of most handlers: a cast error of kind \<^verbatim>\<open>ObjectId\<close> becomes 404 with
  the handler's message, everything else 500.
\<close>

definition catchObjectId :: "string \<Rightarrow> exn \<Rightarrow> response" where
  "catchObjectId m e =
     (if kind e = Some ''ObjectId'' then (404, Msg m) else serverError)"

text \<open>
  Casting an array of references; one bad element fails the whole array, a \<^verbatim>\<open>null\<close>
  element stays \<^verbatim>\<open>null\<close>.
\<close>

fun castAll :: "string option list \<Rightarrow> oid option list option" where
  "castAll [] = Some []"
| "castAll (None # xs) =
     (case castAll xs of None \<Rightarrow> None | Some ks \<Rightarrow> Some (None # ks))"
| "castAll (Some x # xs) =
     (case castObjectId x of
        None \<Rightarrow> None
      | Some k \<Rightarrow> (case castAll xs of None \<Rightarrow> None | Some ks \<Rightarrow> Some (Some k # ks)))"

text \<open>
  \<^verbatim>\<open>team.some(member => member.toString() === x)\<close> over the stored team: \<^verbatim>\<open>some\<close> stops
  at the first entry that matches, and \<^verbatim>\<open>member.toString()\<close> on a \<^verbatim>\<open>null\<close> entry reached
  before that is a \<^verbatim>\<open>TypeError\<close>.
\<close>

fun teamSome :: "oid option list \<Rightarrow> (oid \<Rightarrow> bool) \<Rightarrow> exn + bool" where
  "teamSome [] P = Inr False"
| "teamSome (None # ms) P = Inl TypeError"
| "teamSome (Some m # ms) P = (if P m then Inr True else teamSome ms P)"

text \<open>
  \<^verbatim>\<open>team.filter(member => member.toString() !== x)\<close> visits every entry, so any \<^verbatim>\<open>null\<close>
  entry is a \<^verbatim>\<open>TypeError\<close>.
\<close>

fun teamFilter :: "oid option list \<Rightarrow> (oid \<Rightarrow> bool) \<Rightarrow> exn + oid option list" where
  "teamFilter [] P = Inr []"
| "teamFilter (None # ms) P = Inl TypeError"
| "teamFilter (Some m # ms) P =
     (case teamFilter ms P of
        Inl e \<Rightarrow> Inl e
      | Inr r \<Rightarrow> Inr (if P m then Some m # r else r))"


definition catchAll :: "exn \<Rightarrow> response" where
  "catchAll e = serverError"

definition findByIdAndUpdate ::
  "('d \<Rightarrow> oid) \<Rightarrow> 'd list \<Rightarrow> string \<Rightarrow> ('d \<Rightarrow> 'd) \<Rightarrow> exn + 'd list" where
  "findByIdAndUpdate key docs i f =
     (case castObjectId i of
        None \<Rightarrow> Inl (CastError ''ObjectId'')
      | Some k \<Rightarrow> Inr (updateFirst (\<lambda>d. key d = k) f docs))"

definition findByIdAndRemove :: "('d \<Rightarrow> oid) \<Rightarrow> 'd list \<Rightarrow> string \<Rightarrow> exn + 'd list" where
  "findByIdAndRemove key docs i =
     (case castObjectId i of
        None \<Rightarrow> Inl (CastError ''ObjectId'')
      | Some k \<Rightarrow> Inr (removeFirst (\<lambda>d. key d = k) docs))"

text \<open>\<^verbatim>\<open>Task.deleteMany({ project: id })\<close>.\<close>

definition deleteManyByProject :: "task list \<Rightarrow> string \<Rightarrow> exn + task list" where
  "deleteManyByProject ts i =
     (case castObjectId i of
        None \<Rightarrow> Inl (CastError ''ObjectId'')
      | Some k \<Rightarrow> Inr (filter (\<lambda>t. t_project t \<noteq> k) ts))"

text \<open>A cast of one optional reference in a \<^verbatim>\<open>$set\<close> object.\<close>

definition castRef :: "string option \<Rightarrow> exn + oid option" where
  "castRef v =
     (case v of
        None \<Rightarrow> Inr None
      | Some x \<Rightarrow> (case castObjectId x of
                    None \<Rightarrow> Inl (CastError ''ObjectId'')
                  | Some k \<Rightarrow> Inr (Some k)))"

text \<open>
  A cast of an optional array of references in a \<^verbatim>\<open>$set\<close> object. The array cast wraps the
  element's error: its kind is \<^verbatim>\<open>[ObjectId]\<close>, not \<^verbatim>\<open>ObjectId\<close>.
\<close>

definition castRefs :: "string option list option \<Rightarrow> exn + oid option list option" where
  "castRefs v =
     (case v of
        None \<Rightarrow> Inr None
      | Some xs \<Rightarrow> (case castAll xs of
                     None \<Rightarrow> Inl (CastError ''[ObjectId]'')
                   | Some ks \<Rightarrow> Inr (Some ks)))"

text \<open>The response of a query that was awaited with \<^verbatim>\<open>populate\<close>: the document or \<^verbatim>\<open>null\<close>.\<close>

definition projectJson :: "store \<Rightarrow> string \<Rightarrow> payload" where
  "projectJson s i =
     (case findById p_id (projects s) i of
        Inr (Some d) \<Rightarrow> ProjectJson (populateProject s d)
      | _ \<Rightarrow> JsonNull)"

section \<open>Project controller\<close>

text \<open>The fields that \<^verbatim>\<open>createProject\<close> and \<^verbatim>\<open>updateProject\<close> read from \<^verbatim>\<open>req.body\<close>.\<close>

record project_body =
  b_name :: "string option"
  b_description :: "string option"
  b_manager :: "string option"
  b_team :: "string option list option"
  b_status :: "string option"
  b_startDate :: "string option"
  b_endDate :: "string option"

text \<open>\<^verbatim>\<open>Project.find({ $or: [{ manager: id }, { team: id }] })\<close> and \<^verbatim>\<open>Project.find({ team: id })\<close>.\<close>

definition findManagedOrTeam :: "project list \<Rightarrow> string \<Rightarrow> exn + project list" where
  "findManagedOrTeam ps i =
     (case castObjectId i of
        None \<Rightarrow> Inl (CastError ''ObjectId'')
      | Some k \<Rightarrow> Inr (filter (\<lambda>p. p_manager p = k \<or> Some k \<in> set (p_team p)) ps))"

definition findByTeam :: "project list \<Rightarrow> string \<Rightarrow> exn + project list" where
  "findByTeam ps i =
     (case castObjectId i of
        None \<Rightarrow> Inl (CastError ''ObjectId'')
      | Some k \<Rightarrow> Inr (filter (\<lambda>p. Some k \<in> set (p_team p)) ps))"

definition getProjects_try :: "store \<Rightarrow> actor \<Rightarrow> exn + response" where
  "getProjects_try s a =
     (if user_role a = ''admin'' then
        Inr (200, ProjectsJson (map (populateProject s) (projects s)))
      else if user_role a = ''manager'' then
        (case findManagedOrTeam (projects s) (user_id a) of
           Inl e \<Rightarrow> Inl e
         | Inr ps \<Rightarrow> Inr (200, ProjectsJson (map (populateProject s) ps)))
      else
        (case findByTeam (projects s) (user_id a) of
           Inl e \<Rightarrow> Inl e
         | Inr ps \<Rightarrow> Inr (200, ProjectsJson (map (populateProject s) ps))))"

definition getProjects :: "store \<Rightarrow> actor \<Rightarrow> response" where
  "getProjects s a = (case getProjects_try s a of Inl e \<Rightarrow> catchAll e | Inr r \<Rightarrow> r)"

text \<open>
  \<^verbatim>\<open>getProjectById\<close> checks the actor against the populated document:
  \<^verbatim>\<open>project.manager.id\<close> dereferences the populated manager, which is \<^verbatim>\<open>null\<close> when the
  manager's user document is gone; that is a \<^verbatim>\<open>TypeError\<close>.
\<close>

definition getProjectById_try :: "store \<Rightarrow> actor \<Rightarrow> string \<Rightarrow> exn + response" where
  "getProjectById_try s a i =
     (case findById p_id (projects s) i of
        Inl e \<Rightarrow> Inl e
      | Inr None \<Rightarrow> Inr (404, Msg ''Project not found'')
      | Inr (Some d) \<Rightarrow>
          let project = populateProject s d;
              isAdmin = (user_role a = ''admin'')
          in (case pp_manager project of
                None \<Rightarrow> Inl TypeError
              | Some manager \<Rightarrow>
                  let isManager = (user_id a = r_id manager);
                      isTeamMember = list_ex (\<lambda>member. r_id member = user_id a) (pp_team project)
                  in if \<not> isAdmin \<and> \<not> isManager \<and> \<not> isTeamMember
                     then Inr (403, Msg ''Not authorized to view this project'')
                     else Inr (200, ProjectJson project)))"

definition getProjectById :: "store \<Rightarrow> actor \<Rightarrow> string \<Rightarrow> response" where
  "getProjectById s a i =
     (case getProjectById_try s a i of
        Inl e \<Rightarrow> catchObjectId ''Project not found'' e
      | Inr r \<Rightarrow> r)"

text \<open>\<^verbatim>\<open>manager || req.user.id\<close>.\<close>

definition orElse :: "string option \<Rightarrow> string \<Rightarrow> string" where
  "orElse v d = (case v of None \<Rightarrow> d | Some x \<Rightarrow> if x = [] then d else x)"

text \<open>
  \<^verbatim>\<open>createProject\<close>. \<open>newId\<close> is the identifier that \<^verbatim>\<open>new Project\<close> generates. A reference
  that does not cast makes \<^verbatim>\<open>save\<close> reject with a validation error and nothing is stored.
  After \<^verbatim>\<open>save\<close> and the populating query the handler evaluates \<^verbatim>\<open>res.json(populatedTask)\<close>;
  no \<^verbatim>\<open>populatedTask\<close> is declared in the module (the query result is bound to
  \<^verbatim>\<open>populatedProject\<close>), so the expression throws a \<^verbatim>\<open>ReferenceError\<close>.
\<close>

definition createProject_try ::
  "store \<Rightarrow> actor \<Rightarrow> project_body \<Rightarrow> oid \<Rightarrow> (exn + response) \<times> store" where
  "createProject_try s a body newId =
     (if user_role a \<noteq> ''admin'' \<and> user_role a \<noteq> ''manager''
      then (Inr (403, Msg ''Not authorized to create projects''), s)
      else
        (case castObjectId (orElse (b_manager body) (user_id a)) of
           None \<Rightarrow> (Inl ValidationError, s)
         | Some manager \<Rightarrow>
             (case castAll (case b_team body of None \<Rightarrow> [] | Some t \<Rightarrow> t) of
                None \<Rightarrow> (Inl ValidationError, s)
              | Some team \<Rightarrow>
                  let project = \<lparr>p_id = newId, p_name = b_name body,
                                 p_description = b_description body,
                                 p_manager = manager, p_team = team,
                                 p_status = b_status body,
                                 p_startDate = b_startDate body,
                                 p_endDate = b_endDate body\<rparr>;
                      s' = s\<lparr>projects := projects s @ [project]\<rparr>;
                      populatedProject = projectJson s' newId
                  in (Inl ReferenceError, s'))))"

definition createProject ::
  "store \<Rightarrow> actor \<Rightarrow> string list \<Rightarrow> project_body \<Rightarrow> oid \<Rightarrow> response \<times> store" where
  "createProject s a errors body newId =
     (if errors \<noteq> [] then ((400, Errors errors), s)
      else (case createProject_try s a body newId of
              (Inl e, s') \<Rightarrow> (catchAll e, s')
            | (Inr r, s') \<Rightarrow> (r, s')))"

text \<open>
  \<^verbatim>\<open>{ $set: projectFields }\<close>: a key is in \<^verbatim>\<open>projectFields\<close> when the request value is
  truthy (an array, also an empty one, is truthy). \<open>manager\<close> and \<open>team\<close> are the cast
  values of the two reference keys.
\<close>

definition setProjectFields ::
  "project_body \<Rightarrow> oid option \<Rightarrow> oid option list option \<Rightarrow> project \<Rightarrow> project" where
  "setProjectFields body manager team d =
     d\<lparr>p_name := setOpt (pick (b_name body)) (p_name d),
       p_description := setOpt (pick (b_description body)) (p_description d),
       p_manager := setField manager (p_manager d),
       p_team := setField team (p_team d),
       p_status := setOpt (pick (b_status body)) (p_status d),
       p_startDate := setOpt (pick (b_startDate body)) (p_startDate d),
       p_endDate := setOpt (pick (b_endDate body)) (p_endDate d)\<rparr>"

definition updateProject_try ::
  "store \<Rightarrow> actor \<Rightarrow> string \<Rightarrow> project_body \<Rightarrow> (exn + response) \<times> store" where
  "updateProject_try s a i body =
     (case findById p_id (projects s) i of
        Inl e \<Rightarrow> (Inl e, s)
      | Inr None \<Rightarrow> (Inr (404, Msg ''Project not found''), s)
      | Inr (Some project) \<Rightarrow>
          let isAdmin = (user_role a = ''admin'');
              isManager = (user_id a = p_manager project)
          in if \<not> isAdmin \<and> \<not> isManager
             then (Inr (403, Msg ''Not authorized to update this project''), s)
             else
               (case castRef (pick (b_manager body)) of
                  Inl e \<Rightarrow> (Inl e, s)
                | Inr manager \<Rightarrow>
                    (case castRefs (b_team body) of
                       Inl e \<Rightarrow> (Inl e, s)
                     | Inr team \<Rightarrow>
                         (case findByIdAndUpdate p_id (projects s) i
                                 (setProjectFields body manager team) of
                            Inl e \<Rightarrow> (Inl e, s)
                          | Inr ps \<Rightarrow>
                              let s' = s\<lparr>projects := ps\<rparr>
                              in (Inr (200, projectJson s' i), s')))))"

definition updateProject ::
  "store \<Rightarrow> actor \<Rightarrow> string list \<Rightarrow> string \<Rightarrow> project_body \<Rightarrow> response \<times> store" where
  "updateProject s a errors i body =
     (if errors \<noteq> [] then ((400, Errors errors), s)
      else (case updateProject_try s a i body of
              (Inl e, s') \<Rightarrow> (catchObjectId ''Project not found'' e, s')
            | (Inr r, s') \<Rightarrow> (r, s')))"

text \<open>
  \<^verbatim>\<open>deleteProject\<close> awaits two writes in sequence: \<^verbatim>\<open>Task.deleteMany\<close>, then
  \<^verbatim>\<open>Project.findByIdAndRemove\<close>. The \<^verbatim>\<open>try\<close> block returns, with its result, the stores that
  these writes leave, in the order of the writes; the store after the request is the last
  of them.
\<close>

definition deleteProject_try ::
  "store \<Rightarrow> actor \<Rightarrow> string \<Rightarrow> (exn + response) \<times> store list" where
  "deleteProject_try s a i =
     (case findById p_id (projects s) i of
        Inl e \<Rightarrow> (Inl e, [])
      | Inr None \<Rightarrow> (Inr (404, Msg ''Project not found''), [])
      | Inr (Some project) \<Rightarrow>
          let isAdmin = (user_role a = ''admin'');
              isManager = (user_id a = p_manager project)
          in if \<not> isAdmin \<and> \<not> isManager
             then (Inr (403, Msg ''Not authorized to delete this project''), [])
             else
               (case deleteManyByProject (tasks s) i of
                  Inl e \<Rightarrow> (Inl e, [])
                | Inr ts \<Rightarrow>
                    let s1 = s\<lparr>tasks := ts\<rparr>
                    in (case findByIdAndRemove p_id (projects s1) i of
                          Inl e \<Rightarrow> (Inl e, [s1])
                        | Inr ps \<Rightarrow>
                            (Inr (200, Msg ''Project and associated tasks removed''),
                             [s1, s1\<lparr>projects := ps\<rparr>]))))"

definition deleteProject :: "store \<Rightarrow> actor \<Rightarrow> string \<Rightarrow> response \<times> store" where
  "deleteProject s a i =
     (case deleteProject_try s a i of
        (Inl e, writes) \<Rightarrow> (catchObjectId ''Project not found'' e, last (s # writes))
      | (Inr r, writes) \<Rightarrow> (r, last (s # writes)))"

text \<open>
  \<^verbatim>\<open>addTeamMember\<close> does not consult \<^verbatim>\<open>validationResult\<close>, so \<^verbatim>\<open>userId\<close> may be missing
  (\<open>None\<close>). The membership test compares the request value with the string of each
  stored entry; nothing equals a missing value. \<^verbatim>\<open>push\<close> casts a string and stores
  \<^verbatim>\<open>null\<close> for a missing value, and \<^verbatim>\<open>save\<close> writes the array back.
\<close>

definition addTeamMember_try ::
  "store \<Rightarrow> actor \<Rightarrow> string \<Rightarrow> string option \<Rightarrow> (exn + response) \<times> store" where
  "addTeamMember_try s a i userId =
     (case findById p_id (projects s) i of
        Inl e \<Rightarrow> (Inl e, s)
      | Inr None \<Rightarrow> (Inr (404, Msg ''Project not found''), s)
      | Inr (Some project) \<Rightarrow>
          let isAdmin = (user_role a = ''admin'');
              isManager = (user_id a = p_manager project)
          in if \<not> isAdmin \<and> \<not> isManager
             then (Inr (403, Msg ''Not authorized to update this project''), s)
             else
               (case teamSome (p_team project) (\<lambda>member. Some member = userId) of
                  Inl e \<Rightarrow> (Inl e, s)
                | Inr True \<Rightarrow> (Inr (400, Msg ''User already in team''), s)
                | Inr False \<Rightarrow>
                    (case castRef userId of
                       Inl e \<Rightarrow> (Inl e, s)
                     | Inr k \<Rightarrow>
                         let team = p_team project @ [k];
                             s' = s\<lparr>projects :=
                                      updateFirst (\<lambda>d. p_id d = p_id project)
                                        (\<lambda>d. d\<lparr>p_team := team\<rparr>) (projects s)\<rparr>
                         in (Inr (200, projectJson s' i), s'))))"

definition addTeamMember ::
  "store \<Rightarrow> actor \<Rightarrow> string \<Rightarrow> string option \<Rightarrow> response \<times> store" where
  "addTeamMember s a i userId =
     (case addTeamMember_try s a i userId of
        (Inl e, s') \<Rightarrow> (catchObjectId ''Project or user not found'' e, s')
      | (Inr r, s') \<Rightarrow> (r, s'))"

text \<open>\<^verbatim>\<open>removeTeamMember\<close>: \<^verbatim>\<open>userId\<close> is a segment of the request path, so it is a string.\<close>

definition removeTeamMember_try ::
  "store \<Rightarrow> actor \<Rightarrow> string \<Rightarrow> string \<Rightarrow> (exn + response) \<times> store" where
  "removeTeamMember_try s a i userId =
     (case findById p_id (projects s) i of
        Inl e \<Rightarrow> (Inl e, s)
      | Inr None \<Rightarrow> (Inr (404, Msg ''Project not found''), s)
      | Inr (Some project) \<Rightarrow>
          let isAdmin = (user_role a = ''admin'');
              isManager = (user_id a = p_manager project)
          in if \<not> isAdmin \<and> \<not> isManager
             then (Inr (403, Msg ''Not authorized to update this project''), s)
             else
               (case teamSome (p_team project) (\<lambda>member. member = userId) of
                  Inl e \<Rightarrow> (Inl e, s)
                | Inr False \<Rightarrow> (Inr (400, Msg ''User not in team''), s)
                | Inr True \<Rightarrow>
                    (case teamFilter (p_team project) (\<lambda>member. member \<noteq> userId) of
                       Inl e \<Rightarrow> (Inl e, s)
                     | Inr team \<Rightarrow>
                         let s' = s\<lparr>projects :=
                                      updateFirst (\<lambda>d. p_id d = p_id project)
                                        (\<lambda>d. d\<lparr>p_team := team\<rparr>) (projects s)\<rparr>
                         in (Inr (200, projectJson s' i), s'))))"

definition removeTeamMember :: "store \<Rightarrow> actor \<Rightarrow> string \<Rightarrow> string \<Rightarrow> response \<times> store" where
  "removeTeamMember s a i userId =
     (case removeTeamMember_try s a i userId of
        (Inl e, s') \<Rightarrow> (catchObjectId ''Project or user not found'' e, s')
      | (Inr r, s') \<Rightarrow> (r, s'))"

section \<open>Task controller\<close>

text \<open>The query parameters of \<^verbatim>\<open>getTasks\<close> and the Mongo filter built from them.\<close>

record task_query =
  q_project :: "string option"
  q_assignedTo :: "string option"
  q_status :: "string option"
  q_priority :: "string option"

datatype project_cond = PEq string | PIn "oid list"

datatype assigned_cond = AEq string | ANotExists

record task_filter =
  f_project :: "project_cond option"
  f_status :: "string option"
  f_priority :: "string option"
  f_assignedTo :: "assigned_cond option"

definition matchProject :: "project_cond option \<Rightarrow> (task \<Rightarrow> bool) option" where
  "matchProject c =
     (case c of
        None \<Rightarrow> Some (\<lambda>t. True)
      | Some (PIn ks) \<Rightarrow> Some (\<lambda>t. t_project t \<in> set ks)
      | Some (PEq x) \<Rightarrow> (case castObjectId x of
                          None \<Rightarrow> None
                        | Some k \<Rightarrow> Some (\<lambda>t. t_project t = k)))"

definition matchAssigned :: "assigned_cond option \<Rightarrow> (task \<Rightarrow> bool) option" where
  "matchAssigned c =
     (case c of
        None \<Rightarrow> Some (\<lambda>t. True)
      | Some ANotExists \<Rightarrow> Some (\<lambda>t. t_assignedTo t = None)
      | Some (AEq x) \<Rightarrow> (case castObjectId x of
                          None \<Rightarrow> None
                        | Some k \<Rightarrow> Some (\<lambda>t. t_assignedTo t = Some k)))"

definition matchString :: "string option \<Rightarrow> string option \<Rightarrow> bool" where
  "matchString c v = (case c of None \<Rightarrow> True | Some x \<Rightarrow> v = Some x)"

text \<open>\<^verbatim>\<open>Task.find(filter)\<close>: the reference conditions are cast first.\<close>

definition findTasks :: "task list \<Rightarrow> task_filter \<Rightarrow> exn + task list" where
  "findTasks ts f =
     (case matchProject (f_project f) of
        None \<Rightarrow> Inl (CastError ''ObjectId'')
      | Some inProject \<Rightarrow>
          (case matchAssigned (f_assignedTo f) of
             None \<Rightarrow> Inl (CastError ''ObjectId'')
           | Some isAssigned \<Rightarrow>
               Inr (filter (\<lambda>t. inProject t \<and> matchString (f_status f) (t_status t)
                                 \<and> matchString (f_priority f) (t_priority t)
                                 \<and> isAssigned t) ts)))"

definition assignedFilter :: "actor \<Rightarrow> string option \<Rightarrow> assigned_cond option" where
  "assignedFilter a assignedTo =
     (if assignedTo = Some ''me'' then Some (AEq (user_id a))
      else if assignedTo = Some ''unassigned'' then Some ANotExists
      else if truthy assignedTo then map_option AEq assignedTo
      else None)"

definition getTasks_try :: "store \<Rightarrow> actor \<Rightarrow> task_query \<Rightarrow> exn + response" where
  "getTasks_try s a q =
     (let project = q_project q;
          filter0 = \<lparr>f_project = map_option PEq (pick project),
                     f_status = pick (q_status q),
                     f_priority = pick (q_priority q),
                     f_assignedTo = assignedFilter a (q_assignedTo q)\<rparr>;
          respond = (\<lambda>fl. case findTasks (tasks s) fl of
                             Inl e \<Rightarrow> Inl e
                           | Inr ts \<Rightarrow> Inr (200, TasksJson (map (populateTask s) ts)))
      in if user_role a \<noteq> ''admin'' then
           (case findManagedOrTeam (projects s) (user_id a) of
              Inl e \<Rightarrow> Inl e
            | Inr accessibleProjects \<Rightarrow>
                let projectIds = map p_id accessibleProjects;
                    filter1 = filter0\<lparr>f_project := Some (PIn projectIds)\<rparr>
                in if truthy project \<and> \<not> list_ex (\<lambda>k. Some k = project) projectIds
                   then Inr (403, Msg ''Not authorized to access tasks from this project'')
                   else respond filter1)
         else respond filter0)"

definition getTasks :: "store \<Rightarrow> actor \<Rightarrow> task_query \<Rightarrow> response" where
  "getTasks s a q = (case getTasks_try s a q of Inl e \<Rightarrow> catchAll e | Inr r \<Rightarrow> r)"

text \<open>
  \<^verbatim>\<open>getTaskById\<close> populates both the project and the assignee; the assignee test reads
  the populated assignee, guarded against \<^verbatim>\<open>null\<close>. \<^verbatim>\<open>task.project.manager\<close> is not
  guarded. The four tests are evaluated before the \<^verbatim>\<open>if\<close>, for every actor; the team test
  runs over the stored team of the project.
\<close>

definition getTaskById_try :: "store \<Rightarrow> actor \<Rightarrow> string \<Rightarrow> exn + response" where
  "getTaskById_try s a i =
     (case findById t_id (tasks s) i of
        Inl e \<Rightarrow> Inl e
      | Inr None \<Rightarrow> Inr (404, Msg ''Task not found'')
      | Inr (Some d) \<Rightarrow>
          let task = populateTask s d;
              isAdmin = (user_role a = ''admin'')
          in (case pt_project task of
                None \<Rightarrow> Inl TypeError
              | Some project \<Rightarrow>
                  let isManager = (p_manager project = user_id a)
                  in (case teamSome (p_team project) (\<lambda>member. member = user_id a) of
                        Inl e \<Rightarrow> Inl e
                      | Inr isTeamMember \<Rightarrow>
                          let isAssigned = (case pt_assignedTo task of
                                              None \<Rightarrow> False
                                            | Some u \<Rightarrow> r_id u = user_id a)
                          in if \<not> isAdmin \<and> \<not> isManager \<and> \<not> isTeamMember \<and> \<not> isAssigned
                             then Inr (403, Msg ''Not authorized to view this task'')
                             else Inr (200, TaskJson task))))"

definition getTaskById :: "store \<Rightarrow> actor \<Rightarrow> string \<Rightarrow> response" where
  "getTaskById s a i =
     (case getTaskById_try s a i of
        Inl e \<Rightarrow> catchObjectId ''Task not found'' e
      | Inr r \<Rightarrow> r)"

text \<open>
  The fields read from \<^verbatim>\<open>req.body\<close> by \<^verbatim>\<open>createTask\<close>; \<^verbatim>\<open>updateTask\<close> reads the same ones
  except \<^verbatim>\<open>project\<close>. The route's validator requires \<^verbatim>\<open>project\<close>, so it is a string here.
\<close>

record task_body =
  tb_title :: "string option"
  tb_description :: "string option"
  tb_project :: string
  tb_assignedTo :: "string option"
  tb_status :: "string option"
  tb_priority :: "string option"
  tb_dueDate :: "string option"

definition taskJson :: "store \<Rightarrow> string \<Rightarrow> payload" where
  "taskJson s i =
     (case findById t_id (tasks s) i of
        Inr (Some d) \<Rightarrow> TaskJson (populateTask s d)
      | _ \<Rightarrow> JsonNull)"

text \<open>
  \<^verbatim>\<open>createTask\<close>. \<open>newId\<close> is the identifier that \<^verbatim>\<open>new Task\<close> generates. Its \<^verbatim>\<open>catch\<close>
  block has no test of \<^verbatim>\<open>err.kind\<close>: every error is answered with 500.
\<close>

definition createTask_try ::
  "store \<Rightarrow> actor \<Rightarrow> task_body \<Rightarrow> oid \<Rightarrow> (exn + response) \<times> store" where
  "createTask_try s a body newId =
     (case findById p_id (projects s) (tb_project body) of
        Inl e \<Rightarrow> (Inl e, s)
      | Inr None \<Rightarrow> (Inr (404, Msg ''Project not found''), s)
      | Inr (Some projectObj) \<Rightarrow>
          let isAdmin = (user_role a = ''admin'');
              isManager = (p_manager projectObj = user_id a)
          in (case teamSome (p_team projectObj) (\<lambda>member. member = user_id a) of
                Inl e \<Rightarrow> (Inl e, s)
              | Inr isTeamMember \<Rightarrow>
                  if \<not> isAdmin \<and> \<not> isManager \<and> \<not> isTeamMember
                  then (Inr (403, Msg ''Not authorized to add tasks to this project''), s)
                  else
                    (case (castObjectId (tb_project body), castRef (tb_assignedTo body),
                           castObjectId (user_id a)) of
                       (Some project, Inr assignedTo, Some createdBy) \<Rightarrow>
                         let task = \<lparr>t_id = newId, t_title = tb_title body,
                                     t_description = tb_description body,
                                     t_project = project, t_assignedTo = assignedTo,
                                     t_status = tb_status body,
                                     t_priority = tb_priority body,
                                     t_dueDate = tb_dueDate body, t_createdBy = createdBy\<rparr>;
                             s' = s\<lparr>tasks := tasks s @ [task]\<rparr>
                         in (Inr (200, taskJson s' newId), s')
                     | _ \<Rightarrow> (Inl ValidationError, s))))"

definition createTask ::
  "store \<Rightarrow> actor \<Rightarrow> string list \<Rightarrow> task_body \<Rightarrow> oid \<Rightarrow> response \<times> store" where
  "createTask s a errors body newId =
     (if errors \<noteq> [] then ((400, Errors errors), s)
      else (case createTask_try s a body newId of
              (Inl e, s') \<Rightarrow> (catchAll e, s')
            | (Inr r, s') \<Rightarrow> (r, s')))"

text \<open>
  \<^verbatim>\<open>{ $set: taskFields }\<close>: \<^verbatim>\<open>taskFields\<close> has at most the six keys below. \<open>assignedTo\<close> is
  the cast value of that key.
\<close>

definition setTaskFields :: "task_body \<Rightarrow> oid option \<Rightarrow> task \<Rightarrow> task" where
  "setTaskFields body assignedTo d =
     d\<lparr>t_title := setOpt (pick (tb_title body)) (t_title d),
       t_description := setOpt (pick (tb_description body)) (t_description d),
       t_assignedTo := (case assignedTo of None \<Rightarrow> t_assignedTo d | Some k \<Rightarrow> Some k),
       t_status := setOpt (pick (tb_status body)) (t_status d),
       t_priority := setOpt (pick (tb_priority body)) (t_priority d),
       t_dueDate := setOpt (pick (tb_dueDate body)) (t_dueDate d)\<rparr>"

text \<open>
  \<^verbatim>\<open>updateTask\<close> populates the project only; the assignee test reads the stored reference.
\<close>

definition updateTask_try ::
  "store \<Rightarrow> actor \<Rightarrow> string \<Rightarrow> task_body \<Rightarrow> (exn + response) \<times> store" where
  "updateTask_try s a i body =
     (case findById t_id (tasks s) i of
        Inl e \<Rightarrow> (Inl e, s)
      | Inr None \<Rightarrow> (Inr (404, Msg ''Task not found''), s)
      | Inr (Some task) \<Rightarrow>
          let isAdmin = (user_role a = ''admin'')
          in (case lookupProject s (t_project task) of
                None \<Rightarrow> (Inl TypeError, s)
              | Some project \<Rightarrow>
                  let isManager = (p_manager project = user_id a)
                  in (case teamSome (p_team project) (\<lambda>member. member = user_id a) of
                        Inl e \<Rightarrow> (Inl e, s)
                      | Inr isTeamMember \<Rightarrow>
                          let isAssigned = (case t_assignedTo task of
                                              None \<Rightarrow> False
                                            | Some k \<Rightarrow> k = user_id a)
                          in if \<not> isAdmin \<and> \<not> isManager \<and> \<not> isTeamMember \<and> \<not> isAssigned
                             then (Inr (403, Msg ''Not authorized to update this task''), s)
                             else
                               (case castRef (pick (tb_assignedTo body)) of
                                  Inl e \<Rightarrow> (Inl e, s)
                                | Inr assignedTo \<Rightarrow>
                                    (case findByIdAndUpdate t_id (tasks s) i
                                            (setTaskFields body assignedTo) of
                                       Inl e \<Rightarrow> (Inl e, s)
                                     | Inr ts \<Rightarrow>
                                         let s' = s\<lparr>tasks := ts\<rparr>
                                         in (Inr (200, taskJson s' i), s'))))))"

definition updateTask ::
  "store \<Rightarrow> actor \<Rightarrow> string list \<Rightarrow> string \<Rightarrow> task_body \<Rightarrow> response \<times> store" where
  "updateTask s a errors i body =
     (if errors \<noteq> [] then ((400, Errors errors), s)
      else (case updateTask_try s a i body of
              (Inl e, s') \<Rightarrow> (catchObjectId ''Task not found'' e, s')
            | (Inr r, s') \<Rightarrow> (r, s')))"

definition deleteTask_try ::
  "store \<Rightarrow> actor \<Rightarrow> string \<Rightarrow> (exn + response) \<times> store" where
  "deleteTask_try s a i =
     (case findById t_id (tasks s) i of
        Inl e \<Rightarrow> (Inl e, s)
      | Inr None \<Rightarrow> (Inr (404, Msg ''Task not found''), s)
      | Inr (Some task) \<Rightarrow>
          let isAdmin = (user_role a = ''admin'')
          in (case lookupProject s (t_project task) of
                None \<Rightarrow> (Inl TypeError, s)
              | Some project \<Rightarrow>
                  let isManager = (p_manager project = user_id a)
                  in if \<not> isAdmin \<and> \<not> isManager
                     then (Inr (403, Msg ''Not authorized to delete this task''), s)
                     else
                       (case findByIdAndRemove t_id (tasks s) i of
                          Inl e \<Rightarrow> (Inl e, s)
                        | Inr ts \<Rightarrow> (Inr (200, Msg ''Task removed''), s\<lparr>tasks := ts\<rparr>))))"

definition deleteTask :: "store \<Rightarrow> actor \<Rightarrow> string \<Rightarrow> response \<times> store" where
  "deleteTask s a i =
     (case deleteTask_try s a i of
        (Inl e, s') \<Rightarrow> (catchObjectId ''Task not found'' e, s')
      | (Inr r, s') \<Rightarrow> (r, s'))"

section \<open>User controller\<close>

record user_body =
  ub_name :: "string option"
  ub_email :: "string option"
  ub_role :: "string option"

definition getUsers :: "store \<Rightarrow> actor \<Rightarrow> response" where
  "getUsers s a = (200, UsersJson (map userView (users s)))"

definition getUserById_try :: "store \<Rightarrow> actor \<Rightarrow> string \<Rightarrow> exn + response" where
  "getUserById_try s a i =
     (case findById u_id (users s) i of
        Inl e \<Rightarrow> Inl e
      | Inr None \<Rightarrow> Inr (404, Msg ''User not found'')
      | Inr (Some user) \<Rightarrow>
          if user_id a \<noteq> i \<and> user_role a \<notin> set [''admin'', ''manager'']
          then Inr (403, Msg ''Not authorized to view this user'')
          else Inr (200, UserJson (userView user)))"

definition getUserById :: "store \<Rightarrow> actor \<Rightarrow> string \<Rightarrow> response" where
  "getUserById s a i =
     (case getUserById_try s a i of
        Inl e \<Rightarrow> catchObjectId ''User not found'' e
      | Inr r \<Rightarrow> r)"

text \<open>The \<^verbatim>\<open>$set\<close> object that \<^verbatim>\<open>updateUser\<close> builds before it enters the \<^verbatim>\<open>try\<close> block.\<close>

definition buildUserFields :: "actor \<Rightarrow> user_body \<Rightarrow> user_body" where
  "buildUserFields a body =
     \<lparr>ub_name = pick (ub_name body),
      ub_email = pick (ub_email body),
      ub_role = (if truthy (ub_role body) \<and> user_role a = ''admin''
                 then ub_role body else None)\<rparr>"

text \<open>The unique index on \<^verbatim>\<open>email\<close>: a write that would give two users one address fails.\<close>

definition emailTaken :: "user list \<Rightarrow> oid \<Rightarrow> string option \<Rightarrow> bool" where
  "emailTaken us k e =
     (case e of
        None \<Rightarrow> False
      | Some x \<Rightarrow> list_ex (\<lambda>u. u_id u \<noteq> k \<and> u_email u = Some x) us)"

definition userJson :: "store \<Rightarrow> string \<Rightarrow> payload" where
  "userJson s i =
     (case findById u_id (users s) i of
        Inr (Some d) \<Rightarrow> UserJson (userView d)
      | _ \<Rightarrow> JsonNull)"

text \<open>\<^verbatim>\<open>{ $set: userFields }\<close>.\<close>

definition setUserFields :: "user_body \<Rightarrow> user \<Rightarrow> user" where
  "setUserFields userFields d =
     d\<lparr>u_name := setOpt (ub_name userFields) (u_name d),
       u_email := setOpt (ub_email userFields) (u_email d),
       u_role := setOpt (ub_role userFields) (u_role d)\<rparr>"

definition updateUser_try ::
  "store \<Rightarrow> actor \<Rightarrow> string \<Rightarrow> user_body \<Rightarrow> (exn + response) \<times> store" where
  "updateUser_try s a i userFields =
     (case findById u_id (users s) i of
        Inl e \<Rightarrow> (Inl e, s)
      | Inr None \<Rightarrow> (Inr (404, Msg ''User not found''), s)
      | Inr (Some user) \<Rightarrow>
          if user_id a \<noteq> i \<and> user_role a \<noteq> ''admin''
          then (Inr (403, Msg ''Not authorized to update this user''), s)
          else if emailTaken (users s) (u_id user) (ub_email userFields)
          then (Inl DuplicateKey, s)
          else
            (case findByIdAndUpdate u_id (users s) i (setUserFields userFields) of
               Inl e \<Rightarrow> (Inl e, s)
             | Inr us \<Rightarrow>
                 let s' = s\<lparr>users := us\<rparr>
                 in (Inr (200, userJson s' i), s')))"

definition updateUser ::
  "store \<Rightarrow> actor \<Rightarrow> string list \<Rightarrow> string \<Rightarrow> user_body \<Rightarrow> response \<times> store" where
  "updateUser s a errors i body =
     (if errors \<noteq> [] then ((400, Errors errors), s)
      else (case updateUser_try s a i (buildUserFields a body) of
              (Inl e, s') \<Rightarrow> (catchObjectId ''User not found'' e, s')
            | (Inr r, s') \<Rightarrow> (r, s')))"

definition deleteUser_try ::
  "store \<Rightarrow> actor \<Rightarrow> string \<Rightarrow> (exn + response) \<times> store" where
  "deleteUser_try s a i =
     (case findById u_id (users s) i of
        Inl e \<Rightarrow> (Inl e, s)
      | Inr None \<Rightarrow> (Inr (404, Msg ''User not found''), s)
      | Inr (Some user) \<Rightarrow>
          if user_id a \<noteq> i \<and> user_role a \<noteq> ''admin''
          then (Inr (403, Msg ''Not authorized to delete this user''), s)
          else
            (case findByIdAndRemove u_id (users s) i of
               Inl e \<Rightarrow> (Inl e, s)
             | Inr us \<Rightarrow> (Inr (200, Msg ''User removed''), s\<lparr>users := us\<rparr>)))"

definition deleteUser :: "store \<Rightarrow> actor \<Rightarrow> string \<Rightarrow> response \<times> store" where
  "deleteUser s a i =
     (case deleteUser_try s a i of
        (Inl e, s') \<Rightarrow> (catchObjectId ''User not found'' e, s')
      | (Inr r, s') \<Rightarrow> (r, s'))"

section \<open>All requests\<close>

text \<open>
  One constructor for each handler of the three resource controllers, with what the
  handler reads from the request; \<open>errors\<close> is the result of \<^verbatim>\<open>validationResult(req)\<close>
  for the handlers that consult it.
\<close>

datatype request =
    GetProjects
  | GetProjectById string
  | CreateProject "string list" project_body oid
  | UpdateProject "string list" string project_body
  | DeleteProject string
  | AddTeamMember string "string option"
  | RemoveTeamMember string string
  | GetTasks task_query
  | GetTaskById string
  | CreateTask "string list" task_body oid
  | UpdateTask "string list" string task_body
  | DeleteTask string
  | GetUsers
  | GetUserById string
  | UpdateUser "string list" string user_body
  | DeleteUser string

fun handle :: "store \<Rightarrow> actor \<Rightarrow> request \<Rightarrow> response \<times> store" where
  "handle s a GetProjects = (getProjects s a, s)"
| "handle s a (GetProjectById i) = (getProjectById s a i, s)"
| "handle s a (CreateProject errors body newId) = createProject s a errors body newId"
| "handle s a (UpdateProject errors i body) = updateProject s a errors i body"
| "handle s a (DeleteProject i) = deleteProject s a i"
| "handle s a (AddTeamMember i userId) = addTeamMember s a i userId"
| "handle s a (RemoveTeamMember i userId) = removeTeamMember s a i userId"
| "handle s a (GetTasks q) = (getTasks s a q, s)"
| "handle s a (GetTaskById i) = (getTaskById s a i, s)"
| "handle s a (CreateTask errors body newId) = createTask s a errors body newId"
| "handle s a (UpdateTask errors i body) = updateTask s a errors i body"
| "handle s a (DeleteTask i) = deleteTask s a i"
| "handle s a GetUsers = (getUsers s a, s)"
| "handle s a (GetUserById i) = (getUserById s a i, s)"
| "handle s a (UpdateUser errors i body) = updateUser s a errors i body"
| "handle s a (DeleteUser i) = deleteUser s a i"


section \<open>A concrete store\<close>

text \<open>
  The scenario of the specification: a member \<open>ann\<close> in the team of project \<open>P1\<close>, which
  \<open>bob\<close> manages and which has one unassigned task \<open>T1\<close>; a second project \<open>P2\<close> of \<open>bob\<close>
  with an empty team and one task \<open>T2\<close> assigned to \<open>ann\<close>; and an administrator.
\<close>

definition idAdmin :: oid where "idAdmin = ''a00000000000000000000000''"
definition idAnn :: oid where "idAnn = ''a00000000000000000000001''"
definition idBob :: oid where "idBob = ''a00000000000000000000002''"
definition idP1 :: oid where "idP1 = ''b00000000000000000000001''"
definition idP2 :: oid where "idP2 = ''b00000000000000000000002''"
definition idP3 :: oid where "idP3 = ''b00000000000000000000003''"
definition idT1 :: oid where "idT1 = ''c00000000000000000000001''"
definition idT2 :: oid where "idT2 = ''c00000000000000000000002''"
definition idT3 :: oid where "idT3 = ''c00000000000000000000003''"

definition mkUser :: "oid \<Rightarrow> string \<Rightarrow> string \<Rightarrow> user" where
  "mkUser k n r =
     \<lparr>u_id = k, u_name = Some n, u_email = Some (n @ ''@example.org''),
      u_password = Some ''hash'', u_role = Some r\<rparr>"

definition mkProject :: "oid \<Rightarrow> string \<Rightarrow> oid \<Rightarrow> oid list \<Rightarrow> project" where
  "mkProject k n m t =
     \<lparr>p_id = k, p_name = Some n, p_description = Some ''description'',
      p_manager = m, p_team = map Some t, p_status = Some ''active'',
      p_startDate = None, p_endDate = None\<rparr>"

definition mkTask :: "oid \<Rightarrow> string \<Rightarrow> oid \<Rightarrow> oid option \<Rightarrow> task" where
  "mkTask k n p asg =
     \<lparr>t_id = k, t_title = Some n, t_description = Some ''description'',
      t_project = p, t_assignedTo = asg, t_status = Some ''todo'',
      t_priority = Some ''low'', t_dueDate = None, t_createdBy = idBob\<rparr>"

definition store0 :: store where
  "store0 =
     \<lparr>users = [mkUser idAdmin ''root'' ''admin'', mkUser idAnn ''ann'' ''member'',
               mkUser idBob ''bob'' ''manager''],
      projects = [mkProject idP1 ''apollo'' idBob [idAnn], mkProject idP2 ''gemini'' idBob []],
      tasks = [mkTask idT1 ''design'' idP1 None, mkTask idT2 ''build'' idP2 (Some idAnn)]\<rparr>"

definition root :: actor where
  "root = \<lparr>user_id = idAdmin, user_role = ''admin''\<rparr>"

definition ann :: actor where
  "ann = \<lparr>user_id = idAnn, user_role = ''member''\<rparr>"

definition bob :: actor where
  "bob = \<lparr>user_id = idBob, user_role = ''manager''\<rparr>"

definition noProjectBody :: project_body where
  "noProjectBody =
     \<lparr>b_name = None, b_description = None, b_manager = None, b_team = None,
      b_status = None, b_startDate = None, b_endDate = None\<rparr>"

definition noTaskBody :: task_body where
  "noTaskBody =
     \<lparr>tb_title = None, tb_description = None, tb_project = [], tb_assignedTo = None,
      tb_status = None, tb_priority = None, tb_dueDate = None\<rparr>"

definition noUserBody :: user_body where
  "noUserBody = \<lparr>ub_name = None, ub_email = None, ub_role = None\<rparr>"

definition noQuery :: task_query where
  "noQuery = \<lparr>q_project = None, q_assignedTo = None, q_status = None, q_priority = None\<rparr>"


text \<open>The store after \<open>bob\<close> has deleted his own account.\<close>

definition storeBobGone :: store where
  "storeBobGone = snd (deleteUser store0 bob idBob)"


definition foreignProjectQuery :: task_query where
  "foreignProjectQuery = noQuery\<lparr>q_project := Some idP2\<rparr>"

definition roleBody :: user_body where
  "roleBody = noUserBody\<lparr>ub_role := Some ''admin''\<rparr>"

definition mergeBody :: task_body where
  "mergeBody = noTaskBody\<lparr>tb_title := Some [], tb_status := Some ''done'', tb_project := idP2\<rparr>"


definition newProjectBody :: project_body where
  "newProjectBody = noProjectBody\<lparr>b_name := Some ''mercury'', b_description := Some ''first''\<rparr>"

definition newTaskBody :: "string \<Rightarrow> task_body" where
  "newTaskBody project =
     noTaskBody\<lparr>tb_title := Some ''test'', tb_description := Some ''first'',
                tb_project := project\<rparr>"

text \<open>
  A team with a \<^verbatim>\<open>null\<close> entry: the administrator stores the array \<^verbatim>\<open>[null, ann]\<close> as the
  team of \<open>P1\<close>.
\<close>

definition nullTeamBody :: project_body where
  "nullTeamBody = noProjectBody\<lparr>b_team := Some [None, Some idAnn]\<rparr>"

definition storeNullTeam :: store where
  "storeNullTeam = snd (updateProject store0 root [] idP1 nullTeamBody)"


definition emailBody :: user_body where
  "emailBody = noUserBody\<lparr>ub_name := Some ''anna'', ub_role := Some ''admin''\<rparr>"

section \<open>Facts about the repository operations\<close>

lemma map_updateFirst: "(\<And>d. g (f d) = g d) \<Longrightarrow> map g (updateFirst P f ds) = map g ds"
  by (induction ds) auto


lemma find_updateFirst:
  "find (\<lambda>d. key d = k) ds = Some d \<Longrightarrow> key (f d) = k \<Longrightarrow>
     find (\<lambda>d. key d = k) (updateFirst (\<lambda>d. key d = k) f ds) = Some (f d)"
  by (induction ds) (auto split: if_splits)

lemma find_removeFirst:
  "distinct (map key ds) \<Longrightarrow> find (\<lambda>d. key d = k) (removeFirst (\<lambda>d. key d = k) ds) = None"
proof (induction ds)
  case Nil
  then show ?case by simp
next
  case (Cons d ds)
  show ?case
  proof (cases "key d = k")
    case True
    with Cons.prems have "\<forall>x\<in>set ds. key x \<noteq> k"
      by (fastforce simp: image_iff)
    with True show ?thesis by (simp add: find_None_iff)
  next
    case False
    with Cons show ?thesis by simp
  qed
qed

lemma findById_Some:
  "findById key ds i = Inr (Some d) \<Longrightarrow>
     \<exists>k. castObjectId i = Some k \<and> find (\<lambda>x. key x = k) ds = Some d \<and> key d = k \<and> d \<in> set ds"
  by (auto simp: findById_def find_Some_iff split: option.splits)

lemma populateUser_id: "populateUser s k = Some r \<Longrightarrow> r_id r = k"
  by (auto simp: populateUser_def userRef_def find_Some_iff)

lemma populated_team_member:
  "list_ex (\<lambda>member. r_id member = x)
     (List.map_filter (\<lambda>m. case m of None \<Rightarrow> None | Some k \<Rightarrow> populateUser s k) ks) \<longleftrightarrow>
     Some x \<in> set ks \<and> populateUser s x \<noteq> None"
  by (induction ks) (auto simp: List.map_filter_simps dest: populateUser_id split: option.splits)



lemma teamSome_not_Forbidden:
  "teamSome ms P = Inr b \<Longrightarrow> b \<longrightarrow> (\<exists>m. Some m \<in> set ms \<and> P m)"
  by (induction ms P rule: teamSome.induct) (auto split: if_splits)



lemma castRef_falsy: "\<not> truthy v \<Longrightarrow> castRef (pick v) = Inr m \<Longrightarrow> m = None"
  by (simp add: pick_def castRef_def)

lemma castRefs_absent: "castRefs None = Inr t \<Longrightarrow> t = None"
  by (simp add: castRefs_def)

lemma setOpt_falsy: "\<not> truthy v \<Longrightarrow> setOpt (pick v) old = old"
  by (simp add: pick_def setOpt_def)

section \<open>Viewing one project\<close>

text \<open>
  Where the manager's user document and the actor's own user document exist,
  \<^verbatim>\<open>getProjectById\<close> answers 200 exactly for an administrator, the manager and the team
  members, and 403 for everybody else.
\<close>

lemma getProjectById_intact:
  assumes P: "findById p_id (projects s) i = Inr (Some P)"
    and m: "populateUser s (p_manager P) \<noteq> None"
    and u: "populateUser s (user_id a) \<noteq> None"
  shows "(status (getProjectById s a i) = 200 \<longleftrightarrow>
            user_role a = ''admin'' \<or> user_id a = p_manager P \<or>
            Some (user_id a) \<in> set (p_team P)) \<and>
         (\<not> (user_role a = ''admin'' \<or> user_id a = p_manager P \<or>
             Some (user_id a) \<in> set (p_team P)) \<longrightarrow>
            getProjectById s a i = (403, Msg ''Not authorized to view this project''))"
  using P m u
  by (auto simp: getProjectById_def getProjectById_try_def populateProject_def Let_def status_def
      populated_team_member dest: populateUser_id split: option.splits)

text \<open>
  Claim C1 says that the single-project view succeeds for an actor exactly when the actor is
  an administrator, the project's manager or a member of its team, and is denied with
  Forbidden otherwise, for every existing project. The handler does not do this for a
  project whose manager has deleted their account: \<open>bob\<close> deletes his own user document,
  project \<open>P1\<close> still exists, and the view of \<open>P1\<close> is answered with 500 for the
  administrator and for the team member \<open>ann\<close>, because \<^verbatim>\<open>project.manager\<close> is \<^verbatim>\<open>null\<close>
  after \<^verbatim>\<open>populate\<close>. Before the deletion the administrator sees the project, and
  \<^verbatim>\<open>updateProject\<close>, which compares the stored reference, still succeeds afterwards.
\<close>

theorem getProjectById_manager_deleted:
  "status (fst (deleteUser store0 bob idBob)) = 200 \<and>
   findById p_id (projects storeBobGone) idP1 =
     Inr (Some (mkProject idP1 ''apollo'' idBob [idAnn])) \<and>
   getProjectById storeBobGone root idP1 = (500, Send ''Server error'') \<and>
   getProjectById storeBobGone ann idP1 = (500, Send ''Server error'') \<and>
   status (getProjectById store0 root idP1) = 200 \<and>
   status (fst (updateProject storeBobGone root [] idP1 noProjectBody)) = 200"
  by code_simp

section \<open>Deleting a task\<close>







text \<open>
  On the store with the team \<^verbatim>\<open>[null, ann]\<close> the view and the update of \<open>T1\<close> are answered
  with 500 for every actor, the administrator included, while the deletion by the
  administrator succeeds.
\<close>

lemma null_team_entry_view_fails:
  "map p_team (projects storeNullTeam) = [[None, Some idAnn], []] \<and>
   getTaskById storeNullTeam root idT1 = (500, Send ''Server error'') \<and>
   fst (updateTask storeNullTeam root [] idT1 noTaskBody) = (500, Send ''Server error'') \<and>
   status (fst (deleteTask storeNullTeam root idT1)) = 200"
  by code_simp

section \<open>Errors and persistence\<close>

lemma createProject_denied:
  "status (fst (createProject s a errors body newId)) \<in> {400, 403, 404} \<Longrightarrow>
     snd (createProject s a errors body newId) = s"
  by (auto simp: status_def createProject_def createProject_try_def catchAll_def
      serverError_def Let_def split: option.splits if_splits)

lemma updateProject_failed:
  "status (fst (updateProject s a errors i body)) \<noteq> 200 \<Longrightarrow>
     snd (updateProject s a errors i body) = s"
  by (auto simp: status_def updateProject_def updateProject_try_def catchObjectId_def
      serverError_def Let_def split: sum.splits option.splits if_splits)

lemma deleteProject_failed:
  "status (fst (deleteProject s a i)) \<noteq> 200 \<Longrightarrow> snd (deleteProject s a i) = s"
  by (auto simp: status_def deleteProject_def deleteProject_try_def catchObjectId_def
      serverError_def Let_def findById_def deleteManyByProject_def findByIdAndRemove_def
      split: option.splits if_splits)

lemma addTeamMember_failed:
  "status (fst (addTeamMember s a i u)) \<noteq> 200 \<Longrightarrow> snd (addTeamMember s a i u) = s"
  by (auto simp: status_def addTeamMember_def addTeamMember_try_def catchObjectId_def
      serverError_def Let_def split: sum.splits option.splits if_splits bool.splits)

lemma removeTeamMember_failed:
  "status (fst (removeTeamMember s a i u)) \<noteq> 200 \<Longrightarrow>
     snd (removeTeamMember s a i u) = s"
  by (auto simp: status_def removeTeamMember_def removeTeamMember_try_def catchObjectId_def
      serverError_def Let_def split: sum.splits option.splits if_splits bool.splits)

lemma createTask_failed:
  "status (fst (createTask s a errors body newId)) \<noteq> 200 \<Longrightarrow>
     snd (createTask s a errors body newId) = s"
  by (auto simp: status_def createTask_def createTask_try_def catchAll_def
      serverError_def Let_def split: sum.splits option.splits if_splits)

lemma updateTask_failed:
  "status (fst (updateTask s a errors i body)) \<noteq> 200 \<Longrightarrow>
     snd (updateTask s a errors i body) = s"
  by (auto simp: status_def updateTask_def updateTask_try_def catchObjectId_def
      serverError_def Let_def split: sum.splits option.splits if_splits)

lemma deleteTask_failed:
  "status (fst (deleteTask s a i)) \<noteq> 200 \<Longrightarrow> snd (deleteTask s a i) = s"
  by (auto simp: status_def deleteTask_def deleteTask_try_def catchObjectId_def
      serverError_def Let_def split: sum.splits option.splits if_splits)

lemma updateUser_failed:
  "status (fst (updateUser s a errors i body)) \<noteq> 200 \<Longrightarrow>
     snd (updateUser s a errors i body) = s"
  by (auto simp: status_def updateUser_def updateUser_try_def catchObjectId_def
      serverError_def Let_def split: sum.splits option.splits if_splits)

lemma deleteUser_failed:
  "status (fst (deleteUser s a i)) \<noteq> 200 \<Longrightarrow> snd (deleteUser s a i) = s"
  by (auto simp: status_def deleteUser_def deleteUser_try_def catchObjectId_def
      serverError_def Let_def split: sum.splits option.splits if_splits)

text \<open>
  A request that is answered with a validation, not-found, forbidden or conflict error
  (status 400, 403 or 404) has written nothing, for every handler of the three resource
  controllers: each of these checks comes before the handler's first write.
\<close>

lemma error_response_no_mutation:
  "status (fst (handle s a r)) \<in> {400, 403, 404} \<Longrightarrow> snd (handle s a r) = s"
  by (cases r)
     (auto simp: createProject_denied updateProject_failed deleteProject_failed
        addTeamMember_failed removeTeamMember_failed createTask_failed updateTask_failed
        deleteTask_failed updateUser_failed deleteUser_failed)

text \<open>
  Every handler but \<^verbatim>\<open>createProject\<close> leaves the store unchanged whenever its answer is not
  a success.
\<close>

lemma failure_no_mutation:
  assumes "\<And>errors body newId. r \<noteq> CreateProject errors body newId"
    and "status (fst (handle s a r)) \<noteq> 200"
  shows "snd (handle s a r) = s"
  using assms
  by (cases r)
     (auto simp: updateProject_failed deleteProject_failed
        addTeamMember_failed removeTeamMember_failed createTask_failed updateTask_failed
        deleteTask_failed updateUser_failed deleteUser_failed)

text \<open>\<^verbatim>\<open>createProject\<close> never answers with a success.\<close>

lemma createProject_never_succeeds:
  "status (fst (createProject s a errors body newId)) \<noteq> 200"
  by (auto simp: status_def createProject_def createProject_try_def catchAll_def
      serverError_def Let_def split: option.splits if_splits)

text \<open>
  Claim C3 says that no handler leaves a mutation persisted when a later step of the same
  request fails, and in particular that a create-project request of an authorised actor
  that fails after the save leaves no new project in storage. \<^verbatim>\<open>createProject\<close> breaks
  this: the administrator's request is answered with 500, because the last statement of
  the handler names an undeclared variable, and the project that was saved before is in
  the store afterwards. The sibling \<^verbatim>\<open>createTask\<close>, which sends the variable it has bound,
  answers 200.
\<close>

theorem createProject_failure_persists:
  "fst (createProject store0 root [] newProjectBody idP3) = (500, Send ''Server error'') \<and>
   lookupProject store0 idP3 = None \<and>
   lookupProject (snd (createProject store0 root [] newProjectBody idP3)) idP3 \<noteq> None \<and>
   status (fst (createTask store0 root [] (newTaskBody idP1) idT3)) = 200"
  by code_simp

section \<open>Deleting a project\<close>

text \<open>
  Claim C4: a successful \<^verbatim>\<open>deleteProject\<close> of project \<open>P\<close> makes two writes, in this order:
  the first leaves the store \<open>s1\<close>, in which every task whose project is \<open>P\<close> is deleted
  and \<open>P\<close> is still present, the second leaves \<open>s2\<close>, in which \<open>P\<close> is removed as well.
  \<open>s2\<close> is the store after the request: \<open>P\<close> is not found, no task refers to it, and the
  task query filtered by the project's identifier returns the empty list. Identifiers of
  stored projects are unique.
\<close>

theorem deleteProject_cascade:
  assumes P: "findById p_id (projects s) i = Inr (Some P)"
    and ok: "status (fst (deleteProject s a i)) = 200"
    and d: "distinct (map p_id (projects s))"
  shows "(let s1 = s\<lparr>tasks := filter (\<lambda>t. t_project t \<noteq> p_id P) (tasks s)\<rparr>;
              s2 = s1\<lparr>projects := removeFirst (\<lambda>d. p_id d = p_id P) (projects s)\<rparr>
          in snd (deleteProject_try s a i) = [s1, s2] \<and>
             snd (deleteProject s a i) = s2 \<and>
             lookupProject s1 (p_id P) = Some P \<and>
             filter (\<lambda>t. t_project t = p_id P) (tasks s1) = [] \<and>
             lookupProject s2 (p_id P) = None \<and>
             filter (\<lambda>t. t_project t = p_id P) (tasks s2) = [] \<and>
             findTasks (tasks s2)
               \<lparr>f_project = Some (PEq i), f_status = None, f_priority = None,
                f_assignedTo = None\<rparr> = Inr [])"
proof -
  from findById_Some[OF P] obtain k where k: "castObjectId i = Some k"
    and f: "find (\<lambda>x. p_id x = k) (projects s) = Some P" and pk: "p_id P = k"
    by blast
  have auth: "user_role a = ''admin'' \<or> user_id a = p_manager P"
    using ok P
    by (auto simp: status_def deleteProject_def deleteProject_try_def Let_def
        split: if_splits)
  have writes: "snd (deleteProject_try s a i) =
     [s\<lparr>tasks := filter (\<lambda>t. t_project t \<noteq> k) (tasks s)\<rparr>,
      s\<lparr>tasks := filter (\<lambda>t. t_project t \<noteq> k) (tasks s),
        projects := removeFirst (\<lambda>d. p_id d = k) (projects s)\<rparr>]"
    using P k auth
    by (auto simp: deleteProject_try_def Let_def deleteManyByProject_def findByIdAndRemove_def)
  have s2: "snd (deleteProject s a i) =
     s\<lparr>tasks := filter (\<lambda>t. t_project t \<noteq> k) (tasks s),
       projects := removeFirst (\<lambda>d. p_id d = k) (projects s)\<rparr>"
  proof (cases "deleteProject_try s a i")
    case (Pair r ws)
    with writes show ?thesis
      by (simp add: deleteProject_def split: sum.splits)
  qed
  have gone: "find (\<lambda>x. p_id x = k) (removeFirst (\<lambda>d. p_id d = k) (projects s)) = None"
    using d by (rule find_removeFirst)
  have empty: "filter (\<lambda>t. t_project t = k) (filter (\<lambda>t. t_project t \<noteq> k) (tasks s)) = []"
    by (induction "tasks s") (auto simp: filter_empty_conv)
  show ?thesis
    using writes s2 gone empty f pk k
    by (simp add: Let_def lookupProject_def findTasks_def matchProject_def matchAssigned_def
        matchString_def)
qed

text \<open>
  The manager \<open>bob\<close> deletes \<open>P1\<close>: the first write leaves both projects and only the task
  \<open>T2\<close> of \<open>P2\<close>, the second leaves only \<open>P2\<close>.
\<close>

theorem deleteProject_cascade_witness:
  "findById p_id (projects store0) idP1 = Inr (Some (mkProject idP1 ''apollo'' idBob [idAnn])) \<and>
   status (fst (deleteProject store0 bob idP1)) = 200 \<and>
   distinct (map p_id (projects store0)) \<and>
   map (\<lambda>w. (map p_id (projects w), map t_id (tasks w))) (snd (deleteProject_try store0 bob idP1)) =
     [([idP1, idP2], [idT2]), ([idP2], [idT2])] \<and>
   lookupProject (snd (deleteProject store0 bob idP1)) idP1 = None \<and>
   filter (\<lambda>t. t_project t = idP1) (tasks (snd (deleteProject store0 bob idP1))) = []"
proof -
  have P: "findById p_id (projects store0) idP1 =
             Inr (Some (mkProject idP1 ''apollo'' idBob [idAnn]))"
    by code_simp
  have ok: "status (fst (deleteProject store0 bob idP1)) = 200"
    by code_simp
  have d: "distinct (map p_id (projects store0))"
    by code_simp
  have pid: "p_id (mkProject idP1 ''apollo'' idBob [idAnn]) = idP1"
    by (simp add: mkProject_def)
  have w: "map (\<lambda>w. (map p_id (projects w), map t_id (tasks w)))
             [store0\<lparr>tasks := filter (\<lambda>t. t_project t \<noteq> idP1) (tasks store0)\<rparr>,
              store0\<lparr>tasks := filter (\<lambda>t. t_project t \<noteq> idP1) (tasks store0),
                     projects := removeFirst (\<lambda>d. p_id d = idP1) (projects store0)\<rparr>] =
           [([idP1, idP2], [idT2]), ([idP2], [idT2])]"
    by code_simp
  note cascade = deleteProject_cascade[OF P ok d, unfolded Let_def pid]
  from cascade
  have 1: "snd (deleteProject_try store0 bob idP1) =
             [store0\<lparr>tasks := filter (\<lambda>t. t_project t \<noteq> idP1) (tasks store0)\<rparr>,
              store0\<lparr>tasks := filter (\<lambda>t. t_project t \<noteq> idP1) (tasks store0),
                     projects := removeFirst (\<lambda>d. p_id d = idP1) (projects store0)\<rparr>]"
    by simp
  from cascade
  have 2: "lookupProject (snd (deleteProject store0 bob idP1)) idP1 = None \<and>
        filter (\<lambda>t. t_project t = idP1) (tasks (snd (deleteProject store0 bob idP1))) = []"
    by simp
  from P ok d w[folded 1] 2 show ?thesis by blast
qed

section \<open>Adding a team member\<close>

text \<open>
  A request without \<^verbatim>\<open>userId\<close> is not refused: it appends a \<^verbatim>\<open>null\<close> entry to the team.
\<close>

lemma addTeamMember_missing_userId:
  "status (fst (addTeamMember store0 bob idP1 None)) = 200 \<and>
   map p_team (projects (snd (addTeamMember store0 bob idP1 None))) =
     [[Some idAnn, None], []]"
  by code_simp





section \<open>Listing tasks of a project\<close>

text \<open>
  Claim C6: a non-admin actor (whose identifier is a well-formed reference, as the
  credential check issues it) who lists tasks with a non-empty project filter \<open>p\<close> that is
  not the identifier of a project the actor manages or is a team member of is answered
  with 403 \<^verbatim>\<open>Not authorized to access tasks from this project\<close>, not with a list.
\<close>

theorem getTasks_foreign_project_denied:
  assumes "user_role a \<noteq> ''admin''"
    and "castObjectId (user_id a) = Some k"
    and "q_project q = Some p" and "p \<noteq> []"
    and "\<forall>P\<in>set (projects s). p_manager P = k \<or> Some k \<in> set (p_team P) \<longrightarrow> p_id P \<noteq> p"
  shows "getTasks s a q = (403, Msg ''Not authorized to access tasks from this project'')"
  using assms
  by (auto simp: getTasks_def getTasks_try_def findManagedOrTeam_def truthy_def list_ex_iff
      Let_def)

text \<open>
  \<open>ann\<close> asks for the tasks of \<open>P2\<close>, a project she is not part of (one of its tasks is
  even assigned to her); the administrator gets that task with the same query.
\<close>

theorem getTasks_foreign_project_denied_witness:
  "user_role ann \<noteq> ''admin'' \<and> castObjectId (user_id ann) = Some idAnn \<and>
   q_project foreignProjectQuery = Some idP2 \<and> idP2 \<noteq> [] \<and>
   map p_id (filter (\<lambda>P. p_manager P = idAnn \<or> Some idAnn \<in> set (p_team P))
               (projects store0)) = [idP1] \<and>
   idP1 \<noteq> idP2 \<and>
   getTasks store0 ann foreignProjectQuery =
     (403, Msg ''Not authorized to access tasks from this project'') \<and>
   status (getTasks store0 root foreignProjectQuery) = 200"
proof -
  have 1: "user_role ann \<noteq> ''admin''"
    by code_simp
  have 2: "castObjectId (user_id ann) = Some idAnn"
    by code_simp
  have 3: "q_project foreignProjectQuery = Some idP2"
    by (simp add: foreignProjectQuery_def)
  have 4: "idP2 \<noteq> []"
    by (simp add: idP2_def)
  have 5: "\<forall>P\<in>set (projects store0).
             p_manager P = idAnn \<or> Some idAnn \<in> set (p_team P) \<longrightarrow> p_id P \<noteq> idP2"
    by code_simp
  have 6: "status (getTasks store0 root foreignProjectQuery) = 200"
    by code_simp
  have 7: "map p_id (filter (\<lambda>P. p_manager P = idAnn \<or> Some idAnn \<in> set (p_team P))
             (projects store0)) = [idP1]"
    by code_simp
  have 8: "idP1 \<noteq> idP2"
    by code_simp
  from getTasks_foreign_project_denied[OF 1 2 3 4 5] 1 2 3 4 6 7 8 show ?thesis
    by blast
qed

section \<open>Updating a user\<close>

lemma updateUser_store:
  "snd (updateUser s a errors i body) = s \<or>
   (\<exists>k. snd (updateUser s a errors i body) =
        s\<lparr>users := updateFirst (\<lambda>d. u_id d = k) (setUserFields (buildUserFields a body))
                     (users s)\<rparr>)"
  by (auto simp: updateUser_def updateUser_try_def findByIdAndUpdate_def Let_def
      split: sum.splits option.splits)

lemma updateUser_frame:
  assumes "\<And>d. g (setUserFields (buildUserFields a body) d) = g d"
  shows "map g (users (snd (updateUser s a errors i body))) = map g (users s)"
  using updateUser_store[of s a errors i body] assms
  by (auto simp: map_updateFirst)

lemma updateUser_others:
  "projects (snd (updateUser s a errors i body)) = projects s \<and>
   tasks (snd (updateUser s a errors i body)) = tasks s"
  using updateUser_store[of s a errors i body] by auto

text \<open>The answers of \<^verbatim>\<open>updateUser\<close>, case by case, for a payload that passes validation.\<close>

lemma updateUser_result:
  assumes u: "findById u_id (users s) i = Inr (Some u)"
  shows "updateUser s a [] i body =
           (if user_id a \<noteq> i \<and> user_role a \<noteq> ''admin''
            then ((403, Msg ''Not authorized to update this user''), s)
            else if emailTaken (users s) (u_id u) (pick (ub_email body))
            then ((500, Send ''Server error''), s)
            else (let s' = s\<lparr>users := updateFirst (\<lambda>d. u_id d = u_id u)
                                        (setUserFields (buildUserFields a body)) (users s)\<rparr>
                  in ((200, userJson s' i), s')))"
proof -
  from findById_Some[OF u] obtain k where k: "castObjectId i = Some k" and uk: "u_id u = k"
    by blast
  show ?thesis
    using u k uk
    by (auto simp: updateUser_def updateUser_try_def findByIdAndUpdate_def Let_def
        buildUserFields_def catchObjectId_def serverError_def)
qed

text \<open>
  Claim C7 says that the update of a user record by a non-admin actor with a role in the
  payload succeeds, for any user record. For the record of somebody else it does not:
  \<open>ann\<close>, a member, is refused the update of \<open>bob\<close>'s record.
\<close>

theorem updateUser_other_record_denied:
  "user_role ann \<noteq> ''admin'' \<and> ub_role roleBody = Some ''admin'' \<and>
   updateUser store0 ann [] idBob roleBody =
     ((403, Msg ''Not authorized to update this user''), store0)"
  by code_simp

text \<open>
  Claim C7 as amended. For a non-admin actor the role of the payload is ignored, whatever
  record is addressed: the outcome (response and store) is that of the same request
  without the role, and no stored role changes. A payload that fails validation is
  answered with 400 and nothing is written. When the payload passes validation and the
  identifier of the request path resolves to a stored user, a non-admin actor is answered
  as follows: if the path identifier is the actor's own identifier, character for
  character, and no other user has the e-mail address of the payload, the answer is 200
  and the addressed record has the truthy name and e-mail of the payload and every other
  field, the role included, as before; if the path identifier is any other string, the
  answer is 403 and the store is unchanged. For an administrator, under the same
  conditions on the payload, a truthy role of the payload is the role of the addressed
  record afterwards.
\<close>

theorem updateUser_role_ignored:
  "(user_role a \<noteq> ''admin'' \<longrightarrow>
      updateUser s a errors i body = updateUser s a errors i (body\<lparr>ub_role := None\<rparr>) \<and>
      map u_role (users (snd (updateUser s a errors i body))) = map u_role (users s)) \<and>
   (errors \<noteq> [] \<longrightarrow> updateUser s a errors i body = ((400, Errors errors), s)) \<and>
   (user_role a \<noteq> ''admin'' \<and> findById u_id (users s) i = Inr (Some u) \<and>
    i = user_id a \<and> \<not> emailTaken (users s) (u_id u) (pick (ub_email body)) \<longrightarrow>
      status (fst (updateUser s a [] i body)) = 200 \<and>
      snd (updateUser s a [] i body) =
        s\<lparr>users := updateFirst (\<lambda>d. u_id d = u_id u)
                     (\<lambda>d. d\<lparr>u_name := setOpt (pick (ub_name body)) (u_name d),
                            u_email := setOpt (pick (ub_email body)) (u_email d)\<rparr>)
                     (users s)\<rparr>) \<and>
   (user_role a \<noteq> ''admin'' \<and> findById u_id (users s) i = Inr (Some u) \<and>
    i \<noteq> user_id a \<longrightarrow>
      updateUser s a [] i body = ((403, Msg ''Not authorized to update this user''), s)) \<and>
   (user_role a = ''admin'' \<and> findById u_id (users s) i = Inr (Some u) \<and>
    \<not> emailTaken (users s) (u_id u) (pick (ub_email body)) \<and> truthy (ub_role body) \<longrightarrow>
      status (fst (updateUser s a [] i body)) = 200 \<and>
      map_option u_role (find (\<lambda>d. u_id d = u_id u) (users (snd (updateUser s a [] i body)))) =
        Some (ub_role body))"
proof (intro conjI impI)
  assume na: "user_role a \<noteq> ''admin''"
  have "buildUserFields a body = buildUserFields a (body\<lparr>ub_role := None\<rparr>)"
    using na by (simp add: buildUserFields_def)
  then show "updateUser s a errors i body = updateUser s a errors i (body\<lparr>ub_role := None\<rparr>)"
    by (simp add: updateUser_def)
  show "map u_role (users (snd (updateUser s a errors i body))) = map u_role (users s)"
    using na
    by (intro updateUser_frame) (simp add: setUserFields_def buildUserFields_def setOpt_def)
next
  assume "errors \<noteq> []"
  then show "updateUser s a errors i body = ((400, Errors errors), s)"
    by (simp add: updateUser_def)
next
  assume h: "user_role a \<noteq> ''admin'' \<and> findById u_id (users s) i = Inr (Some u) \<and>
    i = user_id a \<and> \<not> emailTaken (users s) (u_id u) (pick (ub_email body))"
  then have u: "findById u_id (users s) i = Inr (Some u)"
    by blast
  have f: "setUserFields (buildUserFields a body) =
             (\<lambda>d. d\<lparr>u_name := setOpt (pick (ub_name body)) (u_name d),
                    u_email := setOpt (pick (ub_email body)) (u_email d)\<rparr>)"
    using h by (auto simp: setUserFields_def buildUserFields_def setOpt_def)
  show "status (fst (updateUser s a [] i body)) = 200"
    unfolding updateUser_result[OF u] using h by (simp add: Let_def status_def)
  show "snd (updateUser s a [] i body) =
        s\<lparr>users := updateFirst (\<lambda>d. u_id d = u_id u)
                     (\<lambda>d. d\<lparr>u_name := setOpt (pick (ub_name body)) (u_name d),
                            u_email := setOpt (pick (ub_email body)) (u_email d)\<rparr>)
                     (users s)\<rparr>"
    unfolding updateUser_result[OF u] using h by (simp add: Let_def f)
next
  assume h: "user_role a \<noteq> ''admin'' \<and> findById u_id (users s) i = Inr (Some u) \<and>
    i \<noteq> user_id a"
  then have u: "findById u_id (users s) i = Inr (Some u)"
    by blast
  show "updateUser s a [] i body =
      ((403, Msg ''Not authorized to update this user''), s)"
    unfolding updateUser_result[OF u] using h by auto
next
  assume h: "user_role a = ''admin'' \<and> findById u_id (users s) i = Inr (Some u) \<and>
    \<not> emailTaken (users s) (u_id u) (pick (ub_email body)) \<and> truthy (ub_role body)"
  then have u: "findById u_id (users s) i = Inr (Some u)"
    by blast
  from findById_Some[OF u] obtain k where
    fk: "find (\<lambda>x. u_id x = k) (users s) = Some u" and uk: "u_id u = k"
    by blast
  have key: "u_id (setUserFields (buildUserFields a body) u) = u_id u"
    by (simp add: setUserFields_def)
  have role: "u_role (setUserFields (buildUserFields a body) u) = ub_role body"
    using h by (auto simp: setUserFields_def buildUserFields_def setOpt_def truthy_def
        split: option.splits)
  show "status (fst (updateUser s a [] i body)) = 200"
    unfolding updateUser_result[OF u] using h by (simp add: Let_def status_def)
  have "find (\<lambda>d. u_id d = u_id u)
          (updateFirst (\<lambda>d. u_id d = u_id u) (setUserFields (buildUserFields a body))
             (users s)) = Some (setUserFields (buildUserFields a body) u)"
    using fk uk key by (intro find_updateFirst) simp_all
  then show "map_option u_role
          (find (\<lambda>d. u_id d = u_id u) (users (snd (updateUser s a [] i body)))) =
        Some (ub_role body)"
    unfolding updateUser_result[OF u] using h role by (simp add: Let_def)
qed

text \<open>
  \<open>ann\<close> sends a new name and \<^verbatim>\<open>role: 'admin'\<close> for her own record: 200, her name is the
  new one and she is still a member. The same for \<open>bob\<close>'s record: 403. The administrator
  sends it for \<open>ann\<close>'s record: she is an administrator afterwards.
\<close>

theorem updateUser_role_ignored_witness:
  "user_role ann \<noteq> ''admin'' \<and> ub_role emailBody = Some ''admin'' \<and>
   findById u_id (users store0) (user_id ann) = Inr (Some (mkUser idAnn ''ann'' ''member'')) \<and>
   status (fst (updateUser store0 ann [] (user_id ann) emailBody)) = 200 \<and>
   map u_role (users (snd (updateUser store0 ann [] (user_id ann) emailBody))) =
     [Some ''admin'', Some ''member'', Some ''manager''] \<and>
   map u_name (users (snd (updateUser store0 ann [] (user_id ann) emailBody))) =
     [Some ''root'', Some ''anna'', Some ''bob''] \<and>
   updateUser store0 ann [] idBob emailBody =
     ((403, Msg ''Not authorized to update this user''), store0) \<and>
   updateUser store0 ann [''Please include a valid email''] idAnn emailBody =
     ((400, Errors [''Please include a valid email'']), store0) \<and>
   map_option u_role
     (find (\<lambda>d. u_id d = idAnn) (users (snd (updateUser store0 root [] idAnn emailBody)))) =
     Some (Some ''admin'')"
proof -
  have na: "user_role ann \<noteq> ''admin''"
    by code_simp
  have r: "ub_role emailBody = Some ''admin''"
    by code_simp
  have u: "findById u_id (users store0) (user_id ann) =
             Inr (Some (mkUser idAnn ''ann'' ''member''))"
    by code_simp
  have u': "findById u_id (users store0) idAnn = Inr (Some (mkUser idAnn ''ann'' ''member''))"
    by code_simp
  have b: "findById u_id (users store0) idBob = Inr (Some (mkUser idBob ''bob'' ''manager''))"
    by code_simp
  have nb: "idBob \<noteq> user_id ann"
    by code_simp
  have e: "\<not> emailTaken (users store0) (u_id (mkUser idAnn ''ann'' ''member''))
               (pick (ub_email emailBody))"
    by code_simp
  have ad: "user_role root = ''admin''"
    by code_simp
  have tr: "truthy (ub_role emailBody)"
    by code_simp
  have uid: "u_id (mkUser idAnn ''ann'' ''member'') = idAnn"
    by (simp add: mkUser_def)
  have before: "map u_role (users store0) = [Some ''admin'', Some ''member'', Some ''manager'']"
    by code_simp
  have names: "map u_name (users (store0\<lparr>users :=
                 updateFirst (\<lambda>d. u_id d = u_id (mkUser idAnn ''ann'' ''member''))
                   (\<lambda>d. d\<lparr>u_name := setOpt (pick (ub_name emailBody)) (u_name d),
                          u_email := setOpt (pick (ub_email emailBody)) (u_email d)\<rparr>)
                   (users store0)\<rparr>)) = [Some ''root'', Some ''anna'', Some ''bob'']"
    by code_simp
  note own = updateUser_role_ignored[of ann store0 "[]" "user_id ann" emailBody
         "mkUser idAnn ''ann'' ''member''"]
  from own na u e
  have ok: "status (fst (updateUser store0 ann [] (user_id ann) emailBody)) = 200"
    by blast
  from own na
  have "map u_role (users (snd (updateUser store0 ann [] (user_id ann) emailBody))) =
          map u_role (users store0)"
    by blast
  with before
  have roles: "map u_role (users (snd (updateUser store0 ann [] (user_id ann) emailBody))) =
          [Some ''admin'', Some ''member'', Some ''manager'']"
    by simp
  from own na u e
  have "snd (updateUser store0 ann [] (user_id ann) emailBody) =
          store0\<lparr>users :=
                 updateFirst (\<lambda>d. u_id d = u_id (mkUser idAnn ''ann'' ''member''))
                   (\<lambda>d. d\<lparr>u_name := setOpt (pick (ub_name emailBody)) (u_name d),
                          u_email := setOpt (pick (ub_email emailBody)) (u_email d)\<rparr>)
                   (users store0)\<rparr>"
    by blast
  with names
  have nm: "map u_name (users (snd (updateUser store0 ann [] (user_id ann) emailBody))) =
          [Some ''root'', Some ''anna'', Some ''bob'']"
    by simp
  from updateUser_role_ignored[of ann store0 "[]" idBob emailBody
         "mkUser idBob ''bob'' ''manager''"] na b nb
  have other: "updateUser store0 ann [] idBob emailBody =
     ((403, Msg ''Not authorized to update this user''), store0)"
    by blast
  from updateUser_role_ignored[of ann store0 "[''Please include a valid email'']" idAnn
         emailBody]
  have invalid: "updateUser store0 ann [''Please include a valid email''] idAnn emailBody =
     ((400, Errors [''Please include a valid email'']), store0)"
    by blast
  from updateUser_role_ignored[of root store0 "[]" idAnn emailBody
         "mkUser idAnn ''ann'' ''member''"] ad u' e tr
  have "map_option u_role
     (find (\<lambda>d. u_id d = u_id (mkUser idAnn ''ann'' ''member''))
        (users (snd (updateUser store0 root [] idAnn emailBody)))) = Some (ub_role emailBody)"
    by blast
  then have admin: "map_option u_role
     (find (\<lambda>d. u_id d = idAnn) (users (snd (updateUser store0 root [] idAnn emailBody)))) =
     Some (Some ''admin'')"
    by (simp add: uid r)
  from na r u ok roles nm other invalid admin show ?thesis by blast
qed

section \<open>Malformed identifiers\<close>

text \<open>
  Every handler that looks a document up by the identifier of the request path, and has
  the \<^verbatim>\<open>ObjectId\<close> test in its \<^verbatim>\<open>catch\<close> block, answers a malformed identifier and a
  well-formed identifier of no document alike.
\<close>

lemma malformed_id_not_found:
  assumes "castObjectId i = None"
  shows "getProjectById s a i = (404, Msg ''Project not found'')"
    and "fst (updateProject s a [] i pb) = (404, Msg ''Project not found'')"
    and "fst (deleteProject s a i) = (404, Msg ''Project not found'')"
    and "fst (addTeamMember s a i v) = (404, Msg ''Project or user not found'')"
    and "fst (removeTeamMember s a i u) = (404, Msg ''Project or user not found'')"
    and "getTaskById s a i = (404, Msg ''Task not found'')"
    and "fst (updateTask s a [] i tb) = (404, Msg ''Task not found'')"
    and "fst (deleteTask s a i) = (404, Msg ''Task not found'')"
    and "getUserById s a i = (404, Msg ''User not found'')"
    and "fst (updateUser s a [] i ub) = (404, Msg ''User not found'')"
    and "fst (deleteUser s a i) = (404, Msg ''User not found'')"
  using assms
  by (simp_all add: findById_def catchObjectId_def
      getProjectById_def getProjectById_try_def updateProject_def updateProject_try_def
      deleteProject_def deleteProject_try_def addTeamMember_def addTeamMember_try_def
      removeTeamMember_def removeTeamMember_try_def getTaskById_def getTaskById_try_def
      updateTask_def updateTask_try_def deleteTask_def deleteTask_try_def
      getUserById_def getUserById_try_def updateUser_def updateUser_try_def
      deleteUser_def deleteUser_try_def)

lemma unresolved_id_not_found:
  shows "findById p_id (projects s) i = Inr None \<Longrightarrow>
           getProjectById s a i = (404, Msg ''Project not found'') \<and>
           fst (updateProject s a [] i pb) = (404, Msg ''Project not found'') \<and>
           fst (deleteProject s a i) = (404, Msg ''Project not found'') \<and>
           fst (addTeamMember s a i v) = (404, Msg ''Project not found'') \<and>
           fst (removeTeamMember s a i u) = (404, Msg ''Project not found'')"
    and "findById t_id (tasks s) i = Inr None \<Longrightarrow>
           getTaskById s a i = (404, Msg ''Task not found'') \<and>
           fst (updateTask s a [] i tb) = (404, Msg ''Task not found'') \<and>
           fst (deleteTask s a i) = (404, Msg ''Task not found'')"
    and "findById u_id (users s) i = Inr None \<Longrightarrow>
           getUserById s a i = (404, Msg ''User not found'') \<and>
           fst (updateUser s a [] i ub) = (404, Msg ''User not found'') \<and>
           fst (deleteUser s a i) = (404, Msg ''User not found'')"
  by (simp_all add:
      getProjectById_def getProjectById_try_def updateProject_def updateProject_try_def
      deleteProject_def deleteProject_try_def addTeamMember_def addTeamMember_try_def
      removeTeamMember_def removeTeamMember_try_def getTaskById_def getTaskById_try_def
      updateTask_def updateTask_try_def deleteTask_def deleteTask_try_def
      getUserById_def getUserById_try_def updateUser_def updateUser_try_def
      deleteUser_def deleteUser_try_def)

text \<open>
  Claim C8 says that every handler answers a malformed identifier like a well-formed one
  that resolves to nothing, with NotFound, task creation with a malformed project
  identifier included. \<^verbatim>\<open>createTask\<close> answers 500 for the malformed project identifier
  \<^verbatim>\<open>xyz\<close> and 404 for the well-formed identifier of no project; \<^verbatim>\<open>getTaskById\<close> answers
  404 for both kinds.
\<close>

theorem createTask_malformed_project_id:
  "castObjectId ''xyz'' = None \<and>
   fst (createTask store0 root [] (newTaskBody ''xyz'') idT3) = (500, Send ''Server error'') \<and>
   findById p_id (projects store0) idP3 = Inr None \<and>
   fst (createTask store0 root [] (newTaskBody idP3) idT3) = (404, Msg ''Project not found'') \<and>
   getTaskById store0 root ''xyz'' = (404, Msg ''Task not found'') \<and>
   getTaskById store0 root idT3 = (404, Msg ''Task not found'')"
  by code_simp

section \<open>Partial-field merge\<close>

lemma updateProject_store:
  "snd (updateProject s a errors i body) = s \<or>
   (\<exists>k m t. castRef (pick (b_manager body)) = Inr m \<and> castRefs (b_team body) = Inr t \<and>
      snd (updateProject s a errors i body) =
        s\<lparr>projects := updateFirst (\<lambda>d. p_id d = k) (setProjectFields body m t) (projects s)\<rparr>)"
  by (auto simp: updateProject_def updateProject_try_def findByIdAndUpdate_def Let_def
      split: sum.splits option.splits)

lemma updateTask_store:
  "snd (updateTask s a errors i body) = s \<or>
   (\<exists>k asg. castRef (pick (tb_assignedTo body)) = Inr asg \<and>
      snd (updateTask s a errors i body) =
        s\<lparr>tasks := updateFirst (\<lambda>d. t_id d = k) (setTaskFields body asg) (tasks s)\<rparr>)"
  by (auto simp: updateTask_def updateTask_try_def findByIdAndUpdate_def Let_def
      split: sum.splits option.splits)

lemma updateProject_frame:
  assumes "\<And>d m t. castRef (pick (b_manager body)) = Inr m \<Longrightarrow> castRefs (b_team body) = Inr t
             \<Longrightarrow> g (setProjectFields body m t d) = g d"
  shows "map g (projects (snd (updateProject s a errors i body))) = map g (projects s)"
  using updateProject_store[of s a errors i body] assms
  by (auto simp: map_updateFirst)

lemma updateTask_frame:
  assumes "\<And>d asg. castRef (pick (tb_assignedTo body)) = Inr asg
             \<Longrightarrow> g (setTaskFields body asg d) = g d"
  shows "map g (tasks (snd (updateTask s a errors i body))) = map g (tasks s)"
  using updateTask_store[of s a errors i body] assms
  by (auto simp: map_updateFirst)

lemma updateProject_others:
  "users (snd (updateProject s a errors i body)) = users s \<and>
   tasks (snd (updateProject s a errors i body)) = tasks s"
  using updateProject_store[of s a errors i body] by auto

lemma updateTask_others:
  "users (snd (updateTask s a errors i body)) = users s \<and>
   projects (snd (updateTask s a errors i body)) = projects s"
  using updateTask_store[of s a errors i body] by auto

lemma updateUser_merge:
  "map u_id (users (snd (updateUser s a errors i body))) = map u_id (users s) \<and>
   map u_password (users (snd (updateUser s a errors i body))) = map u_password (users s) \<and>
   (\<not> truthy (ub_name body) \<longrightarrow>
      map u_name (users (snd (updateUser s a errors i body))) = map u_name (users s)) \<and>
   (\<not> truthy (ub_email body) \<longrightarrow>
      map u_email (users (snd (updateUser s a errors i body))) = map u_email (users s)) \<and>
   (\<not> truthy (ub_role body) \<longrightarrow>
      map u_role (users (snd (updateUser s a errors i body))) = map u_role (users s)) \<and>
   projects (snd (updateUser s a errors i body)) = projects s \<and>
   tasks (snd (updateUser s a errors i body)) = tasks s"
  by (intro conjI impI updateUser_frame)
     (simp_all add: updateUser_others setUserFields_def buildUserFields_def setOpt_def
        pick_def)

lemma updateProject_merge:
  "map p_id (projects (snd (updateProject s a errors i body))) = map p_id (projects s) \<and>
   (\<not> truthy (b_name body) \<longrightarrow>
      map p_name (projects (snd (updateProject s a errors i body))) = map p_name (projects s)) \<and>
   (\<not> truthy (b_description body) \<longrightarrow>
      map p_description (projects (snd (updateProject s a errors i body))) =
      map p_description (projects s)) \<and>
   (\<not> truthy (b_manager body) \<longrightarrow>
      map p_manager (projects (snd (updateProject s a errors i body))) =
      map p_manager (projects s)) \<and>
   (b_team body = None \<longrightarrow>
      map p_team (projects (snd (updateProject s a errors i body))) = map p_team (projects s)) \<and>
   (\<not> truthy (b_status body) \<longrightarrow>
      map p_status (projects (snd (updateProject s a errors i body))) =
      map p_status (projects s)) \<and>
   (\<not> truthy (b_startDate body) \<longrightarrow>
      map p_startDate (projects (snd (updateProject s a errors i body))) =
      map p_startDate (projects s)) \<and>
   (\<not> truthy (b_endDate body) \<longrightarrow>
      map p_endDate (projects (snd (updateProject s a errors i body))) =
      map p_endDate (projects s)) \<and>
   users (snd (updateProject s a errors i body)) = users s \<and>
   tasks (snd (updateProject s a errors i body)) = tasks s"
  by (intro conjI impI updateProject_frame)
     (auto simp: updateProject_others setProjectFields_def setOpt_falsy setField_def
        dest: castRef_falsy castRefs_absent)

lemma updateTask_merge:
  "map t_id (tasks (snd (updateTask s a errors i body))) = map t_id (tasks s) \<and>
   map t_project (tasks (snd (updateTask s a errors i body))) = map t_project (tasks s) \<and>
   map t_createdBy (tasks (snd (updateTask s a errors i body))) = map t_createdBy (tasks s) \<and>
   (\<not> truthy (tb_title body) \<longrightarrow>
      map t_title (tasks (snd (updateTask s a errors i body))) = map t_title (tasks s)) \<and>
   (\<not> truthy (tb_description body) \<longrightarrow>
      map t_description (tasks (snd (updateTask s a errors i body))) =
      map t_description (tasks s)) \<and>
   (\<not> truthy (tb_assignedTo body) \<longrightarrow>
      map t_assignedTo (tasks (snd (updateTask s a errors i body))) =
      map t_assignedTo (tasks s)) \<and>
   (\<not> truthy (tb_status body) \<longrightarrow>
      map t_status (tasks (snd (updateTask s a errors i body))) = map t_status (tasks s)) \<and>
   (\<not> truthy (tb_priority body) \<longrightarrow>
      map t_priority (tasks (snd (updateTask s a errors i body))) = map t_priority (tasks s)) \<and>
   (\<not> truthy (tb_dueDate body) \<longrightarrow>
      map t_dueDate (tasks (snd (updateTask s a errors i body))) = map t_dueDate (tasks s)) \<and>
   users (snd (updateTask s a errors i body)) = users s \<and>
   projects (snd (updateTask s a errors i body)) = projects s"
  by (intro conjI impI updateTask_frame)
     (auto simp: updateTask_others setTaskFields_def setOpt_falsy dest: castRef_falsy)

text \<open>
  Claim C9: in each of the three update handlers a field of a stored entity changes only
  when the request value of that field is truthy. For every field that the request leaves
  out or gives a falsy value (the empty string), the column of that field over the whole
  collection is the same before and after, for every outcome of the request; the entities
  keep their identifiers and their order, and the other two collections are untouched.
  An array is truthy whenever it is present, so the team is kept when the request has no
  team.
\<close>

theorem update_partial_merge:
  "(map u_id (users (snd (updateUser s a errors i ub))) = map u_id (users s) \<and>
    map u_password (users (snd (updateUser s a errors i ub))) = map u_password (users s) \<and>
    (\<not> truthy (ub_name ub) \<longrightarrow>
       map u_name (users (snd (updateUser s a errors i ub))) = map u_name (users s)) \<and>
    (\<not> truthy (ub_email ub) \<longrightarrow>
       map u_email (users (snd (updateUser s a errors i ub))) = map u_email (users s)) \<and>
    (\<not> truthy (ub_role ub) \<longrightarrow>
       map u_role (users (snd (updateUser s a errors i ub))) = map u_role (users s)) \<and>
    projects (snd (updateUser s a errors i ub)) = projects s \<and>
    tasks (snd (updateUser s a errors i ub)) = tasks s) \<and>
   (map p_id (projects (snd (updateProject s a errors i pb))) = map p_id (projects s) \<and>
    (\<not> truthy (b_name pb) \<longrightarrow>
       map p_name (projects (snd (updateProject s a errors i pb))) = map p_name (projects s)) \<and>
    (\<not> truthy (b_description pb) \<longrightarrow>
       map p_description (projects (snd (updateProject s a errors i pb))) =
       map p_description (projects s)) \<and>
    (\<not> truthy (b_manager pb) \<longrightarrow>
       map p_manager (projects (snd (updateProject s a errors i pb))) =
       map p_manager (projects s)) \<and>
    (b_team pb = None \<longrightarrow>
       map p_team (projects (snd (updateProject s a errors i pb))) = map p_team (projects s)) \<and>
    (\<not> truthy (b_status pb) \<longrightarrow>
       map p_status (projects (snd (updateProject s a errors i pb))) =
       map p_status (projects s)) \<and>
    (\<not> truthy (b_startDate pb) \<longrightarrow>
       map p_startDate (projects (snd (updateProject s a errors i pb))) =
       map p_startDate (projects s)) \<and>
    (\<not> truthy (b_endDate pb) \<longrightarrow>
       map p_endDate (projects (snd (updateProject s a errors i pb))) =
       map p_endDate (projects s)) \<and>
    users (snd (updateProject s a errors i pb)) = users s \<and>
    tasks (snd (updateProject s a errors i pb)) = tasks s) \<and>
   (map t_id (tasks (snd (updateTask s a errors i tb))) = map t_id (tasks s) \<and>
    map t_project (tasks (snd (updateTask s a errors i tb))) = map t_project (tasks s) \<and>
    map t_createdBy (tasks (snd (updateTask s a errors i tb))) = map t_createdBy (tasks s) \<and>
    (\<not> truthy (tb_title tb) \<longrightarrow>
       map t_title (tasks (snd (updateTask s a errors i tb))) = map t_title (tasks s)) \<and>
    (\<not> truthy (tb_description tb) \<longrightarrow>
       map t_description (tasks (snd (updateTask s a errors i tb))) =
       map t_description (tasks s)) \<and>
    (\<not> truthy (tb_assignedTo tb) \<longrightarrow>
       map t_assignedTo (tasks (snd (updateTask s a errors i tb))) =
       map t_assignedTo (tasks s)) \<and>
    (\<not> truthy (tb_status tb) \<longrightarrow>
       map t_status (tasks (snd (updateTask s a errors i tb))) = map t_status (tasks s)) \<and>
    (\<not> truthy (tb_priority tb) \<longrightarrow>
       map t_priority (tasks (snd (updateTask s a errors i tb))) = map t_priority (tasks s)) \<and>
    (\<not> truthy (tb_dueDate tb) \<longrightarrow>
       map t_dueDate (tasks (snd (updateTask s a errors i tb))) = map t_dueDate (tasks s)) \<and>
    users (snd (updateTask s a errors i tb)) = users s \<and>
    projects (snd (updateTask s a errors i tb)) = projects s)"
  by (intro conjI updateUser_merge[THEN conjunct1] updateProject_merge updateTask_merge)
     (use updateUser_merge[of s a errors i ub] in blast)+

text \<open>
  \<open>ann\<close> updates \<open>T1\<close> with an empty title and the status \<^verbatim>\<open>done\<close>: the request succeeds,
  the titles are as before and the status of \<open>T1\<close> has changed.
\<close>

theorem update_partial_merge_witness:
  "tb_title mergeBody = Some [] \<and> \<not> truthy (tb_title mergeBody) \<and>
   status (fst (updateTask store0 ann [] idT1 mergeBody)) = 200 \<and>
   map t_title (tasks (snd (updateTask store0 ann [] idT1 mergeBody))) =
     [Some ''design'', Some ''build''] \<and>
   map t_status (tasks (snd (updateTask store0 ann [] idT1 mergeBody))) =
     [Some ''done'', Some ''todo'']"
proof -
  have e: "tb_title mergeBody = Some []"
    by code_simp
  have f: "\<not> truthy (tb_title mergeBody)"
    by code_simp
  have ok: "status (fst (updateTask store0 ann [] idT1 mergeBody)) = 200"
    by code_simp
  have before: "map t_title (tasks store0) = [Some ''design'', Some ''build'']"
    by code_simp
  have st: "map t_status (tasks (snd (updateTask store0 ann [] idT1 mergeBody))) =
              [Some ''done'', Some ''todo'']"
    by code_simp
  from update_partial_merge[of store0 ann "[]" idT1 noUserBody noProjectBody mergeBody] f
  have "map t_title (tasks (snd (updateTask store0 ann [] idT1 mergeBody))) =
          map t_title (tasks store0)"
    by blast
  with e f ok before st show ?thesis by simp
qed

section \<open>The project of a task\<close>

text \<open>
  Claim C10: \<^verbatim>\<open>updateTask\<close> never changes the project of a task. Whatever the request
  holds and however it is answered, every stored task has afterwards the project (and the
  identifier) it had before: \<^verbatim>\<open>project\<close> is not among the keys of \<^verbatim>\<open>taskFields\<close>.
\<close>

theorem updateTask_project_unchanged:
  "map t_project (tasks (snd (updateTask s a errors i body))) = map t_project (tasks s) \<and>
   map t_id (tasks (snd (updateTask s a errors i body))) = map t_id (tasks s)"
  by (intro conjI updateTask_frame) (simp_all add: setTaskFields_def)

text \<open>A successful update whose body names another project leaves \<open>T1\<close> in \<open>P1\<close>.\<close>

theorem updateTask_project_unchanged_witness:
  "tb_project mergeBody = idP2 \<and>
   status (fst (updateTask store0 ann [] idT1 mergeBody)) = 200 \<and>
   map t_project (tasks (snd (updateTask store0 ann [] idT1 mergeBody))) = [idP1, idP2]"
proof -
  have b: "tb_project mergeBody = idP2"
    by code_simp
  have ok: "status (fst (updateTask store0 ann [] idT1 mergeBody)) = 200"
    by code_simp
  have before: "map t_project (tasks store0) = [idP1, idP2]"
    by code_simp
  from updateTask_project_unchanged[of store0 ann "[]" idT1 mergeBody] before
  have "map t_project (tasks (snd (updateTask store0 ann [] idT1 mergeBody))) = [idP1, idP2]"
    by simp
  with b ok show ?thesis by blast
qed

end
